theory Spec2Isabelle
  imports Main
begin

section \<open>Values, objects and strings of the assessment command\<close>

text \<open>
  The development embeds \<^verbatim>\<open>src/commands/psp-assess.ts\<close>. A JavaScript string is a
  \<open>string\<close>; a \<open>char\<close> stands for one UTF-16 code unit below 256, so the model covers
  the property names whose code units lie in that range (question names and
  configuration attributes are identifiers).
\<close>

text \<open>
  The answer values the command handles: booleans (confirm prompts), strings (text
  and date prompts, the sentinel), \<^verbatim>\<open>undefined\<close> (reading an absent property),
  \<^verbatim>\<open>null\<close>, whole numbers, and any other object (always truthy), which is opaque.
\<close>

datatype jsval =
    JBool bool
  | JStr string
  | JNum int
  | JNull
  | JUndefined
  | JObject nat

text \<open>JavaScript's \<^verbatim>\<open>ToBoolean\<close>, which \<^verbatim>\<open>!v\<close> and \<^verbatim>\<open>if (v)\<close> apply.\<close>

fun truthy :: "jsval \<Rightarrow> bool" where
  "truthy (JBool b) = b"
| "truthy (JStr s) = (s \<noteq> [])"
| "truthy (JNum n) = (n \<noteq> 0)"
| "truthy JNull = False"
| "truthy JUndefined = False"
| "truthy (JObject _) = True"

text \<open>
  An object is the list of its own enumerable string-keyed properties in the order
  \<^verbatim>\<open>Object.keys\<close> lists them, each name at most once (\<open>wf_obj\<close>). The names are taken not
  to be canonical array indices, which JavaScript would enumerate first.
\<close>

type_synonym obj = "(string \<times> jsval) list"

definition wf_obj :: "obj \<Rightarrow> bool" where
  "wf_obj ob = distinct (map fst ob)"

definition object_keys :: "obj \<Rightarrow> string list" where
  "object_keys ob = map fst ob"

text \<open>\<^verbatim>\<open>ob[k]\<close>: the value of the property, \<^verbatim>\<open>undefined\<close> when it is absent.\<close>

definition get_prop :: "obj \<Rightarrow> string \<Rightarrow> jsval" where
  "get_prop ob k = (case map_of ob k of Some v \<Rightarrow> v | None \<Rightarrow> JUndefined)"

text \<open>
  \<^verbatim>\<open>ob[k] = v\<close>: an existing property keeps its place, a new one is added last.
\<close>

fun set_prop :: "obj \<Rightarrow> string \<Rightarrow> jsval \<Rightarrow> obj" where
  "set_prop [] k v = [(k, v)]"
| "set_prop (p # ps) k v = (if fst p = k then (k, v) # ps else p # set_prop ps k v)"

subsection \<open>Character classes\<close>

text \<open>\<^verbatim>\<open>[A-Z]\<close> and \<^verbatim>\<open>[a-z]\<close> of a regular expression without flags.\<close>

definition is_upper :: "char \<Rightarrow> bool" where
  "is_upper c = (65 \<le> (of_char c :: nat) \<and> (of_char c :: nat) \<le> 90)"

definition is_lower :: "char \<Rightarrow> bool" where
  "is_lower c = (97 \<le> (of_char c :: nat) \<and> (of_char c :: nat) \<le> 122)"

text \<open>
  The line terminators, which \<^verbatim>\<open>.\<close> does not match: LF and CR here (U+2028 and U+2029
  are beyond the modelled code units).
\<close>

definition is_line_terminator :: "char \<Rightarrow> bool" where
  "is_line_terminator c = ((of_char c :: nat) = 10 \<or> (of_char c :: nat) = 13)"

text \<open>
  What \<^verbatim>\<open>String.prototype.trim\<close> strips: the white space TAB, VT, FF, SP, NBSP and
  the line terminators.
\<close>

definition is_white_space :: "char \<Rightarrow> bool" where
  "is_white_space c = ((of_char c :: nat) \<in> {9, 10, 11, 12, 13, 32, 160})"

definition trim :: "string \<Rightarrow> string" where
  "trim s = rev (dropWhile is_white_space (rev (dropWhile is_white_space s)))"

subsection \<open>The two regular expressions\<close>

text \<open>
  \<^verbatim>\<open>/has(.*)Gap/.exec(key)\<close>. The expression is not anchored: the match starts at the
  leftmost \<^verbatim>\<open>has\<close> from which the rest can match. \<^verbatim>\<open>(.*)\<close> is greedy: it first takes one
  more character (no line terminator) and gives it back only when the rest fails
  after it; \<open>dotstar_Gap\<close> is that backtracking, on the text after \<^verbatim>\<open>has\<close>, and returns
  the capture group.
\<close>

fun dotstar_Gap :: "string \<Rightarrow> string option" where
  "dotstar_Gap [] = None"
| "dotstar_Gap (c # cs) =
     (case (if is_line_terminator c then None else dotstar_Gap cs) of
        Some p \<Rightarrow> Some (c # p)
      | None \<Rightarrow> if take 3 (c # cs) = ''Gap'' then Some [] else None)"

fun gap_regex_exec :: "string \<Rightarrow> string option" where
  "gap_regex_exec [] = None"
| "gap_regex_exec (c # cs) =
     (case (if take 3 (c # cs) = ''has'' then dotstar_Gap (drop 3 (c # cs)) else None) of
        Some p \<Rightarrow> Some p
      | None \<Rightarrow> gap_regex_exec cs)"

text \<open>\<^verbatim>\<open>/has.*Gap/.test(questionName)\<close>: the same expression without the group.\<close>

fun dotstar_Gap_test :: "string \<Rightarrow> bool" where
  "dotstar_Gap_test [] = False"
| "dotstar_Gap_test (c # cs) =
     ((\<not> is_line_terminator c \<and> dotstar_Gap_test cs) \<or> take 3 (c # cs) = ''Gap'')"

fun gap_regex_test :: "string \<Rightarrow> bool" where
  "gap_regex_test [] = False"
| "gap_regex_test (c # cs) =
     ((take 3 (c # cs) = ''has'' \<and> dotstar_Gap_test (drop 3 (c # cs))) \<or> gap_regex_test cs)"

text \<open>
  \<^verbatim>\<open>name.replace(/([A-Z])([a-z])/g, (match, upper, lower) => ` ${upper}${lower}`)\<close>:
  from left to right, an upper-case letter directly followed by a lower-case letter
  gets a space in front, and the scan goes on after the pair.
\<close>

fun space_words :: "string \<Rightarrow> string" where
  "space_words (u # l # cs) =
     (if is_upper u \<and> is_lower l then CHR '' '' # u # l # space_words cs
      else u # space_words (l # cs))"
| "space_words cs = cs"

section \<open>The input gap extractor\<close>

record Gap =
  ref :: string
  title :: string

text \<open>
  \<^verbatim>\<open>calculateInputGaps\<close>: the loop over \<^verbatim>\<open>Object.keys(inputs)\<close>, one step per key. The
  value of the property is not read.
\<close>

definition gap_of_key :: "string \<Rightarrow> Gap list" where
  "gap_of_key orgKey =
     (case gap_regex_exec orgKey of
        None \<Rightarrow> []
      | Some name \<Rightarrow> [\<lparr>ref = trim (space_words name), title = ''(see above)''\<rparr>])"

definition calculateInputGaps :: "obj \<Rightarrow> Gap list" where
  "calculateInputGaps inputs =
     fold (\<lambda>orgKey gaps. gaps @ gap_of_key orgKey) (object_keys inputs) []"

section \<open>The store and the collaborators\<close>

text \<open>
  Objects live in a store and are passed by reference, so that an assignment to a
  property is seen through every reference to the object. The world also records, in
  order, the calls the command makes to its collaborators with an effect outside the
  process (console output is not recorded).
\<close>

type_synonym addr = nat

datatype event =
    OutputHelp
  | ReadConfig string
  | QueryRisks string string
  | Prompt "string option"
  | RenderStandard string
  | GenerateReport addr string

text \<open>The store is the list of the objects allocated so far; an address is an index.\<close>

record world =
  heap :: "obj list"
  trace :: "event list"

text \<open>A reference always denotes an object; an address never allocated reads as \<^verbatim>\<open>{}\<close>.\<close>

definition deref :: "world \<Rightarrow> addr \<Rightarrow> obj" where
  "deref w a = (if a < length (heap w) then heap w ! a else [])"

definition alloc :: "obj \<Rightarrow> world \<Rightarrow> addr \<times> world" where
  "alloc ob w = (length (heap w), w\<lparr>heap := heap w @ [ob]\<rparr>)"

text \<open>Assignments to the properties of the object at \<open>a\<close>, in place.\<close>

definition update_object :: "addr \<Rightarrow> (obj \<Rightarrow> obj) \<Rightarrow> world \<Rightarrow> world" where
  "update_object a f w = w\<lparr>heap := (heap w)[a := f (deref w a)]\<rparr>"

definition emit :: "event \<Rightarrow> world \<Rightarrow> world" where
  "emit ev w = w\<lparr>trace := trace w @ [ev]\<rparr>"

text \<open>
  \<^verbatim>\<open>ProgramInput\<close>, as declared: every option is a string or \<^verbatim>\<open>undefined\<close> (\<open>None\<close>).
  \<open>present\<close> is the truthiness of such a value, which \<^verbatim>\<open>!program.account\<close> negates.
\<close>

record ProgramInput =
  version :: "string option"
  standard :: "string option"
  config :: "string option"
  output_dir :: "string option"
  templates :: "string option"
  includeRisks :: "string option"
  account :: "string option"
  apiToken :: "string option"

definition present :: "string option \<Rightarrow> bool" where
  "present x = (case x of None \<Rightarrow> False | Some s \<Rightarrow> s \<noteq> [])"

record PolicyBuilderPaths =
  templates_path :: string
  output_path :: "string option"
  partials_path :: string

text \<open>
  \<^verbatim>\<open>PolicyBuilderConfig\<close>: the reference to the organization object, which the type
  requires, and the rest of the parsed configuration, which this command only hands
  on.
\<close>

record PolicyBuilderConfig =
  organization :: addr
  rest :: jsval

text \<open>
  The modules \<^verbatim>\<open>assessment\<close>, \<^verbatim>\<open>configure\<close>, \<^verbatim>\<open>j1\<close>, \<^verbatim>\<open>fs\<close> and \<^verbatim>\<open>path\<close> are not part of
  the sources: their functions are parameters. A function that can throw returns
  \<open>Inl\<close> of the cause. They read the organization object and do not assign to it.
\<close>

record collab =
  path_exists :: "string \<Rightarrow> bool"
  path_resolve :: "string \<Rightarrow> string"
  local_templates :: string
  npm_templates :: string
  read_config :: "string \<Rightarrow> string + (obj \<times> jsval)"
  queryForEntityList :: "string \<Rightarrow> string \<Rightarrow> string \<Rightarrow> string + obj list"
  generateRiskList :: "obj list \<Rightarrow> jsval"
  validateOrgValues :: "obj \<Rightarrow> bool"
  safeInquirerPrompt :: "string option \<Rightarrow> obj"
  generatePolicyTOC :: "obj \<Rightarrow> jsval \<Rightarrow> jsval"
  current_date :: jsval
  calculateCPGaps :: "string \<Rightarrow> obj \<Rightarrow> jsval \<Rightarrow> PolicyBuilderPaths \<Rightarrow> string + (Gap list \<times> jsval)"
  generateGapSummary :: "Gap list \<Rightarrow> obj \<Rightarrow> jsval \<Rightarrow> string \<Rightarrow> jsval"
  generateGapList :: "Gap list \<Rightarrow> jsval"
  generateStandardControlsMapping :: "jsval \<Rightarrow> obj \<Rightarrow> jsval \<Rightarrow> jsval"
  generateReport :: "obj \<Rightarrow> string \<Rightarrow> PolicyBuilderPaths \<Rightarrow> string option"

text \<open>How a run ends when it does not complete.\<close>

datatype error =
    ProcessExit nat
  | Fatal string nat
  | Thrown string

definition EUSAGEERROR :: nat where
  "EUSAGEERROR = 126"

text \<open>
  Modelled from the spec: \<^verbatim>\<open>error.fatal\<close> (the module \<^verbatim>\<open>src/error\<close> is not part of the
  sources). Failures are fail-fast with a descriptive message and a distinguishable
  non-zero outcome: \<open>fatal\<close> ends the run with the message and the code.
\<close>

definition fatal :: "string \<Rightarrow> nat \<Rightarrow> world \<Rightarrow> (error + 'a) \<times> world" where
  "fatal message code w = (Inl (Fatal message code), w)"

section \<open>The answer normaliser\<close>

definition PEN_TEST_QUESTIONS :: "string list" where
  "PEN_TEST_QUESTIONS =
     [''lastPenTestDate'', ''lastPenTestProvider'', ''penTestFrequency'', ''nextPenTestDate'']"

text \<open>
  \<^verbatim>\<open>Object.keys(answers).filter(...).forEach((gap) => { answers[gap] = !answers[gap]; })\<close>:
  the names are collected first, then each is assigned in turn.
\<close>

definition invert_gap_flags :: "obj \<Rightarrow> obj" where
  "invert_gap_flags answers =
     fold (\<lambda>gap a. set_prop a gap (JBool (\<not> truthy (get_prop a gap))))
       (filter gap_regex_test (object_keys answers)) answers"

text \<open>\<^verbatim>\<open>if (answers.hasPenTestGap) { PEN_TEST_QUESTIONS.forEach(...) }\<close>.\<close>

definition suppress_pen_test :: "obj \<Rightarrow> obj" where
  "suppress_pen_test answers =
     (if truthy (get_prop answers ''hasPenTestGap'')
      then fold (\<lambda>item a. set_prop a item (JStr ''*TBD*'')) PEN_TEST_QUESTIONS answers
      else answers)"

text \<open>Both steps assign to the object the prompt returned, through its reference.\<close>

definition normalize_in_place :: "addr \<Rightarrow> world \<Rightarrow> world" where
  "normalize_in_place answers w =
     update_object answers suppress_pen_test (update_object answers invert_gap_flags w)"

text \<open>
  An object literal: the properties are defined in the order written, a spread
  contributing the properties of its object.
\<close>

definition define_props :: "(string \<times> jsval) list \<Rightarrow> obj \<Rightarrow> obj" where
  "define_props ps ob = fold (\<lambda>p acc. set_prop acc (fst p) (snd p)) ps ob"

definition is_text :: "jsval \<Rightarrow> jsval" where
  "is_text v = (if truthy v then JStr ''is'' else JStr ''is not'')"

definition gatherInputs ::
  "collab \<Rightarrow> ProgramInput \<Rightarrow> PolicyBuilderConfig \<Rightarrow> world \<Rightarrow> (error + addr) \<times> world" where
  "gatherInputs c program cfg w =
     (let org = deref w (organization cfg) in
      if \<not> validateOrgValues c org
      then fatal ''Please update your policy config file and re-run the policy builder before continuing with the assessment.'' EUSAGEERROR w
      else
        let (answers, w1) = alloc (safeInquirerPrompt c (standard program))
                              (emit (Prompt (standard program)) w);
            w2 = normalize_in_place answers w1;
            (inputs, w3) =
              alloc (define_props
                       (deref w2 (organization cfg) @ deref w2 answers @
                        [(''date'', current_date c),
                         (''policyTOC'', generatePolicyTOC c (deref w2 (organization cfg)) (rest cfg)),
                         (''isHIPAACoveredEntityText'',
                            is_text (get_prop (deref w2 (organization cfg)) ''isHIPAACoveredEntity'')),
                         (''isHIPAABusinessAssociateText'',
                            is_text (get_prop (deref w2 (organization cfg)) ''isHIPAABusinessAssociate''))])
                       []) w2
        in (Inr inputs, w3))"

section \<open>The run\<close>

text \<open>The string of an option that has been checked to be present.\<close>

definition string_of :: "string option \<Rightarrow> string" where
  "string_of x = (case x of None \<Rightarrow> [] | Some s \<Rightarrow> s)"

text \<open>
  \<^verbatim>\<open>String.prototype.toLowerCase\<close> on the modelled code units: the letters A to Z and
  the Latin-1 capitals (U+00C0 to U+00DE without the multiplication sign) move up by 32.
\<close>

definition char_to_lower :: "char \<Rightarrow> char" where
  "char_to_lower c =
     (let n = (of_char c :: nat) in
      if (65 \<le> n \<and> n \<le> 90) \<or> (192 \<le> n \<and> n \<le> 222 \<and> n \<noteq> 215) then char_of (n + 32) else c)"

definition to_lower_case :: "string \<Rightarrow> string" where
  "to_lower_case s = map char_to_lower s"

text \<open>
  \<^verbatim>\<open>getRisksFromRegistry\<close>: both credentials are checked before the client is created
  and the query is sent.
\<close>

definition getRisksFromRegistry ::
  "collab \<Rightarrow> ProgramInput \<Rightarrow> world \<Rightarrow> (error + obj list) \<times> world" where
  "getRisksFromRegistry c program w =
     (if \<not> present (account program)
      then fatal ''Missing -a, --account <name> input!'' EUSAGEERROR w
      else if \<not> present (apiToken program)
      then fatal ''Missing -k, --api-token <api_token> input!'' EUSAGEERROR w
      else
        let accountId = string_of (account program);
            apiKey = string_of (apiToken program);
            w1 = emit (QueryRisks accountId apiKey) w
        in case queryForEntityList c accountId apiKey
                  ''find Risk with _beginOn > date.now - 1year'' of
             Inl cause \<Rightarrow> (Inl (Thrown cause), w1)
           | Inr entities \<Rightarrow> (Inr entities, w1))"

text \<open>Lines 122 to 128 of \<^verbatim>\<open>run\<close>: the risk list of the report.\<close>

definition risk_list :: "collab \<Rightarrow> ProgramInput \<Rightarrow> world \<Rightarrow> (error + jsval) \<times> world" where
  "risk_list c program w =
     (if present (includeRisks program)
      then (case getRisksFromRegistry c program w of
              (Inl e, w1) \<Rightarrow> (Inl e, w1)
            | (Inr riskEntities, w1) \<Rightarrow> (Inr (generateRiskList c riskEntities), w1))
      else (Inr (JStr ''Detailed risk items omitted.''), w))"

text \<open>Lines 89 to 106: the template directory and the paths.\<close>

definition resolve_paths :: "collab \<Rightarrow> ProgramInput \<Rightarrow> PolicyBuilderPaths" where
  "resolve_paths c program =
     \<lparr>templates_path =
        (if \<not> present (templates program)
         then (if path_exists c (local_templates c) then local_templates c else npm_templates c)
         else path_resolve c (string_of (templates program))),
      output_path = output_dir program,
      partials_path = ''partials''\<rparr>"

text \<open>
  Lines 111 to 121: the configuration file is read and parsed, into a fresh
  organization object; a failure is fatal.
\<close>

definition load_config ::
  "collab \<Rightarrow> string \<Rightarrow> world \<Rightarrow> (error + PolicyBuilderConfig) \<times> world" where
  "load_config c configFile w =
     (let w1 = emit (ReadConfig configFile) w in
      case read_config c configFile of
        Inl err \<Rightarrow>
          fatal (''Unable to load configuration from '' @ configFile @ '' : '' @ err) EUSAGEERROR w1
      | Inr (org, r) \<Rightarrow>
          (let (a, w2) = alloc org w1 in (Inr \<lparr>organization = a, rest = r\<rparr>, w2)))"

text \<open>Line 143: \<^verbatim>\<open>inputGaps.concat(cpGaps)\<close>, both arrays of gaps.\<close>

definition combine_gaps :: "Gap list \<Rightarrow> Gap list \<Rightarrow> Gap list" where
  "combine_gaps inputGaps cpGaps = inputGaps @ cpGaps"

text \<open>
  What a completed run leaves: the report context it rendered, and the gaps it
  counted for its closing message.
\<close>

record run_result =
  report_inputs :: addr
  allGaps :: "Gap list"

definition run :: "collab \<Rightarrow> ProgramInput \<Rightarrow> world \<Rightarrow> (error + run_result) \<times> world" where
  "run c program w =
     (if \<not> present (standard program) \<or> \<not> present (config program)
      then (Inl (ProcessExit 2), emit OutputHelp w)
      else
        let paths = resolve_paths c program in
        case load_config c (string_of (config program)) w of
          (Inl e, w1) \<Rightarrow> (Inl e, w1)
        | (Inr cfg, w1) \<Rightarrow>
        (case risk_list c program w1 of
          (Inl e, w2) \<Rightarrow> (Inl e, w2)
        | (Inr riskList, w2) \<Rightarrow>
        (case gatherInputs c program cfg w2 of
          (Inl e, w3) \<Rightarrow> (Inl e, w3)
        | (Inr inputs, w3) \<Rightarrow>
          let std = to_lower_case (string_of (standard program));
              inputGaps = calculateInputGaps (deref w3 inputs);
              org = deref w3 (organization cfg);
              w4 = emit (RenderStandard std) w3
          in
          (case calculateCPGaps c std org (rest cfg) paths of
            Inl cause \<Rightarrow> (Inl (Thrown cause), w4)
          | Inr (cpGaps, annotatedRefs) \<Rightarrow>
            let gaps = combine_gaps inputGaps cpGaps;
                gapSummary = generateGapSummary c gaps org (rest cfg) std;
                gapList = generateGapList c gaps;
                hipaaControlsMapping = generateStandardControlsMapping c annotatedRefs org (rest cfg);
                w5 = update_object inputs
                       (define_props
                          [(''gapList'', gapList),
                           (''gapSummary'', gapSummary),
                           (''hipaaControlsMapping'', hipaaControlsMapping),
                           (''riskList'', riskList)]) w4;
                w6 = emit (GenerateReport inputs std) w5
            in
            (case generateReport c (deref w6 inputs) std paths of
               Some cause \<Rightarrow> (Inl (Thrown cause), w6)
             | None \<Rightarrow> (Inr \<lparr>report_inputs = inputs, allGaps = gaps\<rparr>, w6))))))"

text \<open>
  The rule the specification words for the reference of a gap, kept apart from the
  code's \<open>space_words\<close> for comparison: a space goes in wherever a lower-case letter is
  directly followed by an upper-case letter.
\<close>

fun spec_space_lower_upper :: "string \<Rightarrow> string" where
  "spec_space_lower_upper (l # u # cs) =
     (if is_lower l \<and> is_upper u then l # CHR '' '' # spec_space_lower_upper (u # cs)
      else l # spec_space_lower_upper (u # cs))"
| "spec_space_lower_upper cs = cs"

text \<open>
  The spacing read position by position, for comparison with the scan of
  \<open>space_words\<close>: every upper-case letter whose next character is a lower-case letter
  gets one space in front.
\<close>

fun space_before_capitalised :: "string \<Rightarrow> string" where
  "space_before_capitalised [] = []"
| "space_before_capitalised (c # cs) =
     (if is_upper c \<and> cs \<noteq> [] \<and> is_lower (hd cs) then [CHR '' '', c] else [c])
       @ space_before_capitalised cs"

section \<open>A sample run\<close>

text \<open>
  Collaborators that succeed, an organization that is a covered entity, an interview
  with the single answer that the organization has a penetration test process, and
  the options \<^verbatim>\<open>--standard hipaa --config config.json\<close>.
\<close>

definition example_collab :: collab where
  "example_collab =
     \<lparr>path_exists = (\<lambda>_. True),
      path_resolve = (\<lambda>p. p),
      local_templates = ''templates'',
      npm_templates = ''node_modules/templates'',
      read_config = (\<lambda>_. Inr ([(''isHIPAACoveredEntity'', JBool True)], JNull)),
      queryForEntityList = (\<lambda>_ _ _. Inr []),
      generateRiskList = (\<lambda>_. JStr ''risks''),
      validateOrgValues = (\<lambda>_. True),
      safeInquirerPrompt = (\<lambda>_. [(''hasPenTestGap'', JBool True)]),
      generatePolicyTOC = (\<lambda>_ _. JStr ''toc''),
      current_date = JObject 0,
      calculateCPGaps = (\<lambda>_ _ _ _. Inr ([], JNull)),
      generateGapSummary = (\<lambda>_ _ _ _. JStr ''summary''),
      generateGapList = (\<lambda>_. JStr ''list''),
      generateStandardControlsMapping = (\<lambda>_ _ _. JStr ''mapping''),
      generateReport = (\<lambda>_ _ _. None)\<rparr>"

definition example_program :: ProgramInput where
  "example_program =
     \<lparr>version = None, standard = Some ''hipaa'', config = Some ''config.json'',
      output_dir = Some ''assessments'', templates = None, includeRisks = None,
      account = None, apiToken = None\<rparr>"

definition empty_world :: world where
  "empty_world = \<lparr>heap = [], trace = []\<rparr>"

text \<open>
  The same collaborators with an interview that answers that the organization has no
  penetration test process and still gives the date of a last test.
\<close>

definition example_collab_no_pen_test :: collab where
  "example_collab_no_pen_test =
     example_collab\<lparr>safeInquirerPrompt :=
       (\<lambda>_. [(''hasPenTestGap'', JBool False), (''lastPenTestDate'', JStr ''2020-01-01'')])\<rparr>"

section \<open>Properties of the regular expressions and of objects\<close>

lemma get_prop_set_prop:
  "get_prop (set_prop ob k v) k' = (if k' = k then v else get_prop ob k')"
  by (induction ob) (auto simp: get_prop_def)

lemma fold_gaps_concat:
  "fold (\<lambda>orgKey gaps. gaps @ f orgKey) ks acc = acc @ concat (map f ks)"
  by (induction ks arbitrary: acc) simp_all

lemma calculateInputGaps_concat:
  "calculateInputGaps inputs = concat (map gap_of_key (object_keys inputs))"
  by (simp add: calculateInputGaps_def fold_gaps_concat)

lemma dotstar_Gap_topic:
  "\<forall>c\<in>set t. \<not> is_line_terminator c \<Longrightarrow> dotstar_Gap (t @ ''Gap'') = Some t"
  by (induction t) (simp_all add: is_line_terminator_def)

lemma gap_regex_exec_exact:
  "\<forall>c\<in>set t. \<not> is_line_terminator c \<Longrightarrow> gap_regex_exec (''has'' @ t @ ''Gap'') = Some t"
  by (simp add: dotstar_Gap_topic)

lemma dotstar_test_exec: "dotstar_Gap_test s \<longleftrightarrow> dotstar_Gap s \<noteq> None"
  by (induction s) (auto split: option.splits)

lemma gap_regex_test_exec: "gap_regex_test s \<longleftrightarrow> gap_regex_exec s \<noteq> None"
  by (induction s) (auto simp: dotstar_test_exec split: option.splits)

lemma dotstar_Gap_test_intro:
  "\<forall>c\<in>set mid. \<not> is_line_terminator c \<Longrightarrow> dotstar_Gap_test (mid @ ''Gap'' @ post)"
  by (induction mid) simp_all

lemma gap_regex_test_append: "gap_regex_test s \<Longrightarrow> gap_regex_test (pre @ s)"
  by (induction pre) simp_all

lemma dotstar_Gap_test_elim:
  "dotstar_Gap_test s \<Longrightarrow> \<exists>mid post. s = mid @ ''Gap'' @ post \<and> (\<forall>c\<in>set mid. \<not> is_line_terminator c)"
proof (induction s)
  case Nil
  then show ?case by simp
next
  case (Cons c cs)
  show ?case
  proof (cases "take 3 (c # cs) = ''Gap''")
    case True
    then have "c # cs = [] @ ''Gap'' @ drop 3 (c # cs)"
      by (metis append_Nil append_take_drop_id)
    then show ?thesis by (metis empty_iff list.set(1))
  next
    case False
    with Cons.prems have nl: "\<not> is_line_terminator c" and t: "dotstar_Gap_test cs" by auto
    from Cons.IH [OF t] obtain mid post where
      "cs = mid @ ''Gap'' @ post" "\<forall>x\<in>set mid. \<not> is_line_terminator x" by blast
    with nl have "c # cs = (c # mid) @ ''Gap'' @ post \<and> (\<forall>x\<in>set (c # mid). \<not> is_line_terminator x)"
      by simp
    then show ?thesis by blast
  qed
qed

lemma gap_regex_test_elim:
  "gap_regex_test s \<Longrightarrow>
     \<exists>pre mid post. s = pre @ ''has'' @ mid @ ''Gap'' @ post \<and> (\<forall>c\<in>set mid. \<not> is_line_terminator c)"
proof (induction s)
  case Nil
  then show ?case by simp
next
  case (Cons c cs)
  show ?case
  proof (cases "take 3 (c # cs) = ''has'' \<and> dotstar_Gap_test (drop 3 (c # cs))")
    case True
    then obtain mid post where m: "drop 3 (c # cs) = mid @ ''Gap'' @ post"
      "\<forall>x\<in>set mid. \<not> is_line_terminator x"
      using dotstar_Gap_test_elim by blast
    from True have "c # cs = ''has'' @ drop 3 (c # cs)"
      by (metis append_take_drop_id)
    with m have "c # cs = [] @ ''has'' @ mid @ ''Gap'' @ post" by simp
    with m(2) show ?thesis by blast
  next
    case False
    with Cons.prems have "gap_regex_test cs" by auto
    from Cons.IH [OF this] obtain pre mid post where
      "cs = pre @ ''has'' @ mid @ ''Gap'' @ post" "\<forall>x\<in>set mid. \<not> is_line_terminator x" by blast
    then have "c # cs = (c # pre) @ ''has'' @ mid @ ''Gap'' @ post" by simp
    with \<open>\<forall>x\<in>set mid. \<not> is_line_terminator x\<close> show ?thesis by blast
  qed
qed

lemma gap_regex_test_iff:
  "gap_regex_test s \<longleftrightarrow>
     (\<exists>pre mid post. s = pre @ ''has'' @ mid @ ''Gap'' @ post \<and> (\<forall>c\<in>set mid. \<not> is_line_terminator c))"
proof
  assume "gap_regex_test s" then show "\<exists>pre mid post. s = pre @ ''has'' @ mid @ ''Gap'' @ post \<and> (\<forall>c\<in>set mid. \<not> is_line_terminator c)"
    by (rule gap_regex_test_elim)
next
  assume "\<exists>pre mid post. s = pre @ ''has'' @ mid @ ''Gap'' @ post \<and> (\<forall>c\<in>set mid. \<not> is_line_terminator c)"
  then obtain pre mid post where s: "s = pre @ ''has'' @ mid @ ''Gap'' @ post"
    and nl: "\<forall>c\<in>set mid. \<not> is_line_terminator c" by blast
  from nl have "dotstar_Gap_test (mid @ ''Gap'' @ post)" by (rule dotstar_Gap_test_intro)
  then have "gap_regex_test (''has'' @ mid @ ''Gap'' @ post)" by simp
  then show "gap_regex_test s" unfolding s by (rule gap_regex_test_append)
qed

lemma last_dropWhile: "dropWhile P xs \<noteq> [] \<Longrightarrow> last (dropWhile P xs) = last xs"
  by (induction xs) (auto split: if_splits)

lemma trim_empty_iff: "trim s = [] \<longleftrightarrow> (\<forall>c\<in>set s. is_white_space c)"
proof -
  have "trim s = [] \<longleftrightarrow> (\<forall>c\<in>set (dropWhile is_white_space s). is_white_space c)"
    by (simp add: trim_def)
  also have "\<dots> \<longleftrightarrow> (\<forall>c\<in>set s. is_white_space c)"
  proof
    assume a: "\<forall>c\<in>set (dropWhile is_white_space s). is_white_space c"
    show "\<forall>c\<in>set s. is_white_space c"
    proof
      fix c assume "c \<in> set s"
      then have "c \<in> set (takeWhile is_white_space s) \<or> c \<in> set (dropWhile is_white_space s)"
        by (metis Un_iff set_append takeWhile_dropWhile_id)
      with a show "is_white_space c" by (auto dest: set_takeWhileD)
    qed
  next
    assume "\<forall>c\<in>set s. is_white_space c"
    then show "\<forall>c\<in>set (dropWhile is_white_space s). is_white_space c"
      using set_dropWhileD by fast
  qed
  finally show ?thesis .
qed

lemma trim_no_outer_white_space:
  assumes "trim s \<noteq> []"
  shows "\<not> is_white_space (hd (trim s)) \<and> \<not> is_white_space (last (trim s))"
proof -
  let ?t = "dropWhile is_white_space s"
  let ?u = "dropWhile is_white_space (rev ?t)"
  from assms have u: "?u \<noteq> []" by (simp add: trim_def)
  then have t: "?t \<noteq> []" by (metis dropWhile.simps(1) rev.simps(1))
  have "last (trim s) = hd ?u" using u by (simp add: trim_def last_rev)
  moreover have "\<not> is_white_space (hd ?u)" using u by (rule hd_dropWhile)
  moreover have "hd (trim s) = last ?u" using u by (simp add: trim_def hd_rev)
  moreover have "last ?u = last (rev ?t)" using u by (rule last_dropWhile)
  moreover have "last (rev ?t) = hd ?t" using t by (simp add: last_rev)
  moreover have "\<not> is_white_space (hd ?t)" using t by (rule hd_dropWhile)
  ultimately show ?thesis by simp
qed

lemma set_space_words: "set (space_words s) - {CHR '' ''} = set s - {CHR '' ''}"
  by (induction s rule: space_words.induct) auto

lemma space_words_all_white:
  "(\<forall>c\<in>set (space_words s). is_white_space c) \<longleftrightarrow> (\<forall>c\<in>set s. is_white_space c)"
proof -
  have sp: "is_white_space (CHR '' '')" by (simp add: is_white_space_def)
  have "\<And>A. (\<forall>c\<in>A. is_white_space c) \<longleftrightarrow> (\<forall>c\<in>A - {CHR '' ''}. is_white_space c)"
    using sp by auto
  then show ?thesis using set_space_words by metis
qed

lemma gap_of_key_cases:
  "g \<in> set (gap_of_key k) \<Longrightarrow>
     \<exists>topic. gap_regex_exec k = Some topic \<and> g = \<lparr>ref = trim (space_words topic), title = ''(see above)''\<rparr>"
  by (cases "gap_regex_exec k") (simp_all add: gap_of_key_def)

lemma keys_set_prop:
  "set (object_keys (set_prop ob k v)) = insert k (set (object_keys ob))"
  by (induction ob) (auto simp: object_keys_def)

lemma fold_invert_get:
  "distinct ks \<Longrightarrow>
   get_prop (fold (\<lambda>gap a. set_prop a gap (JBool (\<not> truthy (get_prop a gap)))) ks a) k =
     (if k \<in> set ks then JBool (\<not> truthy (get_prop a k)) else get_prop a k)"
  by (induction ks arbitrary: a) (auto simp: get_prop_set_prop)

lemma get_prop_invert_gap_flags:
  assumes "wf_obj answers"
  shows "get_prop (invert_gap_flags answers) k =
     (if k \<in> set (object_keys answers) \<and> gap_regex_test k
      then JBool (\<not> truthy (get_prop answers k)) else get_prop answers k)"
proof -
  from assms have "distinct (filter gap_regex_test (object_keys answers))"
    by (simp add: wf_obj_def object_keys_def)
  then show ?thesis
    unfolding invert_gap_flags_def by (simp add: fold_invert_get)
qed

lemma fold_const_get:
  "get_prop (fold (\<lambda>item a. set_prop a item v) items a) k =
     (if k \<in> set items then v else get_prop a k)"
  by (induction items arbitrary: a) (auto simp: get_prop_set_prop)

lemma get_prop_suppress_pen_test:
  "get_prop (suppress_pen_test answers) k =
     (if truthy (get_prop answers ''hasPenTestGap'') \<and> k \<in> set PEN_TEST_QUESTIONS
      then JStr ''*TBD*'' else get_prop answers k)"
  by (simp add: suppress_pen_test_def fold_const_get)

lemma pen_test_questions_not_flags:
  "\<forall>q\<in>set PEN_TEST_QUESTIONS. \<not> gap_regex_test q \<and> q \<noteq> ''hasPenTestGap''"
  by (simp add: PEN_TEST_QUESTIONS_def)

lemma deref_update_object:
  "deref (update_object a f w) b =
     (if b = a \<and> a < length (heap w) then f (deref w a) else deref w b)"
  by (simp add: deref_def update_object_def)

lemma trace_update_object: "trace (update_object a f w) = trace w"
  by (simp add: update_object_def)

lemma length_heap_update_object: "length (heap (update_object a f w)) = length (heap w)"
  by (simp add: update_object_def)

lemma deref_normalize_in_place:
  "deref (normalize_in_place a w) b =
     (if b = a \<and> a < length (heap w) then suppress_pen_test (invert_gap_flags (deref w a))
      else deref w b)"
  by (simp add: normalize_in_place_def deref_update_object length_heap_update_object)

lemma fold_define_get_notin:
  "k \<notin> fst ` set ps \<Longrightarrow> get_prop (define_props ps ob) k = get_prop ob k"
  unfolding define_props_def
  by (induction ps arbitrary: ob) (auto simp: get_prop_set_prop)

lemma define_props_append:
  "define_props (ps @ qs) ob = define_props qs (define_props ps ob)"
  by (simp add: define_props_def)

lemma get_prop_define_last:
  "get_prop (define_props (ps @ [(k, v)]) ob) k = v"
  by (simp add: define_props_def get_prop_set_prop)

lemmas char_class_defs = is_white_space_def is_upper_def is_lower_def is_line_terminator_def

lemma lower_not_upper: "is_lower c \<Longrightarrow> \<not> is_upper c"
  by (simp add: is_lower_def is_upper_def)

lemma space_words_positionwise: "space_words s = space_before_capitalised s"
  by (induction s rule: space_words.induct) (auto simp: lower_not_upper)

section \<open>Properties of the steps of a run\<close>

lemma gatherInputs_Inr:
  assumes "gatherInputs c program cfg w = (Inr inputs, w')"
  shows "inputs = Suc (length (heap w)) \<and> length (heap w') = length (heap w) + 2 \<and>
         trace w' = trace w @ [Prompt (standard program)] \<and>
         (\<forall>b<length (heap w). deref w' b = deref w b) \<and>
         deref w' (length (heap w)) =
           suppress_pen_test (invert_gap_flags (safeInquirerPrompt c (standard program)))"
  using assms
  by (auto simp: gatherInputs_def fatal_def Let_def alloc_def emit_def normalize_in_place_def
        update_object_def deref_def nth_append split: if_splits)

lemma gatherInputs_Inl:
  assumes "gatherInputs c program cfg w = (Inl e, w')"
  shows "(\<exists>m. e = Fatal m EUSAGEERROR) \<and> w' = w"
  using assms
  by (auto simp: gatherInputs_def fatal_def Let_def alloc_def split: if_splits prod.splits)

lemma gatherInputs_total:
  "validateOrgValues c (deref w (organization cfg)) \<Longrightarrow>
     \<exists>inputs w'. gatherInputs c program cfg w = (Inr inputs, w')"
  by (simp add: gatherInputs_def Let_def alloc_def)

lemma load_config_Inr:
  assumes "load_config c f w = (Inr cfg, w')"
  shows "trace w' = trace w @ [ReadConfig f] \<and> organization cfg = length (heap w) \<and>
         length (heap w') = Suc (length (heap w))"
  using assms
  by (auto simp: load_config_def fatal_def Let_def alloc_def emit_def split: sum.splits prod.splits)

lemma load_config_Inl:
  assumes "load_config c f w = (Inl e, w')"
  shows "(\<exists>m. e = Fatal m EUSAGEERROR) \<and> trace w' = trace w @ [ReadConfig f] \<and>
         (\<exists>cause. read_config c f = Inl cause)"
  using assms
  by (auto simp: load_config_def fatal_def Let_def alloc_def emit_def split: sum.splits prod.splits)

lemma load_config_total:
  "read_config c f = Inr (org, r) \<Longrightarrow> \<exists>cfg w'. load_config c f w = (Inr cfg, w')"
  by (simp add: load_config_def Let_def alloc_def)

lemma getRisks_missing:
  assumes "\<not> present (account program) \<or> \<not> present (apiToken program)"
  shows "getRisksFromRegistry c program w =
           (Inl (Fatal (if \<not> present (account program)
                        then ''Missing -a, --account <name> input!''
                        else ''Missing -k, --api-token <api_token> input!'') EUSAGEERROR), w)"
  using assms by (auto simp: getRisksFromRegistry_def fatal_def)

lemma risk_list_not_requested:
  "\<not> present (includeRisks program) \<Longrightarrow>
     risk_list c program w = (Inr (JStr ''Detailed risk items omitted.''), w)"
  by (simp add: risk_list_def)

lemma run_Inr:
  assumes "run c program w = (Inr res, w')"
  shows "\<exists>cfg w1 riskList w2 w3 cpGaps annotatedRefs.
           present (standard program) \<and> present (config program) \<and>
           load_config c (string_of (config program)) w = (Inr cfg, w1) \<and>
           risk_list c program w1 = (Inr riskList, w2) \<and>
           gatherInputs c program cfg w2 = (Inr (report_inputs res), w3) \<and>
           calculateCPGaps c (to_lower_case (string_of (standard program)))
             (deref w3 (organization cfg)) (rest cfg) (resolve_paths c program) = Inr (cpGaps, annotatedRefs) \<and>
           allGaps res = combine_gaps (calculateInputGaps (deref w3 (report_inputs res))) cpGaps \<and>
           w' = emit (GenerateReport (report_inputs res) (to_lower_case (string_of (standard program))))
                  (update_object (report_inputs res)
                     (define_props
                        [(''gapList'', generateGapList c (allGaps res)),
                         (''gapSummary'', generateGapSummary c (allGaps res) (deref w3 (organization cfg)) (rest cfg)
                                            (to_lower_case (string_of (standard program)))),
                         (''hipaaControlsMapping'',
                            generateStandardControlsMapping c annotatedRefs (deref w3 (organization cfg)) (rest cfg)),
                         (''riskList'', riskList)])
                     (emit (RenderStandard (to_lower_case (string_of (standard program)))) w3))"
  using assms
  by (auto simp: run_def Let_def split: if_splits prod.splits sum.splits option.splits)

lemma deref_emit: "deref (emit ev w) a = deref w a"
  by (simp add: deref_def emit_def)

lemma length_heap_emit: "length (heap (emit ev w)) = length (heap w)"
  by (simp add: emit_def)

lemma trace_emit: "trace (emit ev w) = trace w @ [ev]"
  by (simp add: emit_def)

lemmas example_defs = example_collab_def example_program_def empty_world_def

lemma example_run:
  "run example_collab example_program empty_world =
     (Inr \<lparr>report_inputs = 2, allGaps = [\<lparr>ref = ''Pen Test'', title = ''(see above)''\<rparr>]\<rparr>,
      \<lparr>heap =
         [[(''isHIPAACoveredEntity'', JBool True)],
          [(''hasPenTestGap'', JBool False)],
          [(''isHIPAACoveredEntity'', JBool True),
           (''hasPenTestGap'', JBool False),
           (''date'', JObject 0),
           (''policyTOC'', JStr ''toc''),
           (''isHIPAACoveredEntityText'', JStr ''is''),
           (''isHIPAABusinessAssociateText'', JStr ''is not''),
           (''gapList'', JStr ''list''),
           (''gapSummary'', JStr ''summary''),
           (''hipaaControlsMapping'', JStr ''mapping''),
           (''riskList'', JStr ''Detailed risk items omitted.'')]],
       trace = [ReadConfig ''config.json'', Prompt (Some ''hipaa''), RenderStandard ''hipaa'',
                GenerateReport 2 ''hipaa'']\<rparr>)"
  by (simp add: example_defs run_def present_def string_of_def load_config_def risk_list_def
        gatherInputs_def resolve_paths_def Let_def alloc_def emit_def normalize_in_place_def
        update_object_def deref_def invert_gap_flags_def suppress_pen_test_def define_props_def
        object_keys_def get_prop_def is_text_def to_lower_case_def char_to_lower_def
        calculateInputGaps_def gap_of_key_def trim_def combine_gaps_def char_class_defs)

section \<open>The normalized answers in the contexts of a run\<close>

lemma distinct_keys_set_prop:
  "distinct (map fst ob) \<Longrightarrow> distinct (map fst (set_prop ob k v))"
proof (induction ob)
  case Nil
  then show ?case by simp
next
  case (Cons p ps)
  have "fst ` set (set_prop ps k v) = insert k (fst ` set ps)"
    using keys_set_prop [of ps k v] by (simp add: object_keys_def)
  with Cons show ?case by auto
qed

lemma wf_obj_fold_set_prop:
  "wf_obj a \<Longrightarrow> wf_obj (fold (\<lambda>x acc. set_prop acc x (h x acc)) xs a)"
  by (induction xs arbitrary: a) (simp_all add: wf_obj_def distinct_keys_set_prop)

lemma keys_fold_set_prop:
  "set (object_keys (fold (\<lambda>x acc. set_prop acc x (h x acc)) xs a)) = set xs \<union> set (object_keys a)"
  by (induction xs arbitrary: a) (auto simp: keys_set_prop)

lemma wf_obj_invert_gap_flags: "wf_obj a \<Longrightarrow> wf_obj (invert_gap_flags a)"
  unfolding invert_gap_flags_def by (rule wf_obj_fold_set_prop)

lemma wf_obj_suppress_pen_test: "wf_obj a \<Longrightarrow> wf_obj (suppress_pen_test a)"
  unfolding suppress_pen_test_def by (simp add: wf_obj_fold_set_prop)

lemma keys_invert_gap_flags: "set (object_keys (invert_gap_flags a)) = set (object_keys a)"
  unfolding invert_gap_flags_def by (auto simp: keys_fold_set_prop)

lemma keys_suppress_pen_test:
  "set (object_keys (suppress_pen_test a)) =
     (if truthy (get_prop a ''hasPenTestGap'') then set PEN_TEST_QUESTIONS else {}) \<union> set (object_keys a)"
  unfolding suppress_pen_test_def by (simp add: keys_fold_set_prop)

lemma get_prop_define_props:
  "get_prop (define_props ps ob) k =
     (case map_of (rev ps) k of Some v \<Rightarrow> v | None \<Rightarrow> get_prop ob k)"
proof (induction ps rule: rev_induct)
  case Nil
  then show ?case by (simp add: define_props_def)
next
  case (snoc p ps)
  have "define_props (ps @ [p]) ob = set_prop (define_props ps ob) (fst p) (snd p)"
    by (simp add: define_props_def)
  with snoc show ?case by (cases p) (simp add: get_prop_set_prop)
qed

lemma map_of_rev_distinct: "distinct (map fst xs) \<Longrightarrow> map_of (rev xs) = map_of xs"
proof (induction xs)
  case Nil
  then show ?case by simp
next
  case (Cons p ps)
  then have "fst p \<notin> dom (map_of ps)" by (simp add: dom_map_of_conv_image_fst)
  then have "map_of ps (fst p) = None" by blast
  with Cons show ?case
    by (cases p) (auto simp: map_add_def fun_eq_iff split: option.splits)
qed

lemma get_prop_spread:
  assumes "wf_obj ans" and "k \<in> set (object_keys ans)" and "k \<notin> fst ` set extra"
  shows "get_prop (define_props (org @ ans @ extra) []) k = get_prop ans k"
proof -
  from assms(3) have e: "map_of (rev extra) k = None"
    by (simp add: map_of_eq_None_iff)
  from assms(1) have r: "map_of (rev ans) = map_of ans"
    by (simp add: wf_obj_def map_of_rev_distinct)
  from assms(2) obtain v where v: "map_of ans k = Some v"
    by (metis object_keys_def image_set map_of_eq_None_iff not_None_eq)
  have "get_prop (define_props (org @ ans @ extra) []) k =
          (case map_of (rev (org @ ans @ extra)) k of Some x \<Rightarrow> x | None \<Rightarrow> get_prop [] k)"
    by (rule get_prop_define_props)
  also have "\<dots> = v" by (simp add: map_add_def e r v)
  also have "v = get_prop ans k" by (simp add: get_prop_def v)
  finally show ?thesis .
qed

lemma gatherInputs_context:
  assumes "gatherInputs c program cfg w = (Inr inputs, w')"
  shows "\<exists>org extra.
           deref w' inputs =
             define_props
               (org @ suppress_pen_test (invert_gap_flags (safeInquirerPrompt c (standard program))) @ extra) [] \<and>
           map fst extra =
             [''date'', ''policyTOC'', ''isHIPAACoveredEntityText'', ''isHIPAABusinessAssociateText'']"
proof -
  let ?raw = "safeInquirerPrompt c (standard program)"
  define answers where "answers = fst (alloc ?raw (emit (Prompt (standard program)) w))"
  define w1 where "w1 = snd (alloc ?raw (emit (Prompt (standard program)) w))"
  define w2 where "w2 = normalize_in_place answers w1"
  define org where "org = deref w2 (organization cfg)"
  define extra where "extra =
     [(''date'', current_date c),
      (''policyTOC'', generatePolicyTOC c org (rest cfg)),
      (''isHIPAACoveredEntityText'', is_text (get_prop org ''isHIPAACoveredEntity'')),
      (''isHIPAABusinessAssociateText'', is_text (get_prop org ''isHIPAABusinessAssociate''))]"
  define ctx where "ctx = define_props (org @ deref w2 answers @ extra) []"
  have v: "validateOrgValues c (deref w (organization cfg))"
    using assms
    by (cases "validateOrgValues c (deref w (organization cfg))")
       (simp_all add: gatherInputs_def fatal_def Let_def)
  then have "gatherInputs c program cfg w = (Inr (fst (alloc ctx w2)), snd (alloc ctx w2))"
    by (simp add: gatherInputs_def Let_def case_prod_beta answers_def w1_def w2_def org_def
          extra_def ctx_def)
  with assms have "inputs = fst (alloc ctx w2)" and "w' = snd (alloc ctx w2)"
    by simp_all
  then have d: "deref w' inputs = ctx" by (simp add: alloc_def deref_def)
  have a: "answers = length (heap w)" "length (heap w) < length (heap w1)"
    "deref w1 (length (heap w)) = ?raw"
    by (simp_all add: answers_def w1_def alloc_def emit_def deref_def)
  then have n: "deref w2 answers = suppress_pen_test (invert_gap_flags ?raw)"
    by (simp add: w2_def deref_normalize_in_place)
  have "map fst extra =
      [''date'', ''policyTOC'', ''isHIPAACoveredEntityText'', ''isHIPAABusinessAssociateText'']"
    by (simp add: extra_def)
  with d show ?thesis unfolding ctx_def n by - (intro exI conjI, assumption+)
qed

lemma run_context:
  assumes "run c program w = (Inr res, w')"
  shows "\<exists>cfg w2 w3 assigned.
           gatherInputs c program cfg w2 = (Inr (report_inputs res), w3) \<and>
           deref w' (report_inputs res) = define_props assigned (deref w3 (report_inputs res)) \<and>
           map fst assigned = [''gapList'', ''gapSummary'', ''hipaaControlsMapping'', ''riskList'']"
proof -
  from run_Inr [OF assms] obtain cfg w2 w3 assigned where
    gi: "gatherInputs c program cfg w2 = (Inr (report_inputs res), w3)"
    and w': "w' = emit (GenerateReport (report_inputs res) (to_lower_case (string_of (standard program))))
                  (update_object (report_inputs res) (define_props assigned)
                     (emit (RenderStandard (to_lower_case (string_of (standard program)))) w3))"
    and a: "map fst assigned = [''gapList'', ''gapSummary'', ''hipaaControlsMapping'', ''riskList'']"
    by fastforce
  from gatherInputs_Inr [OF gi] have "report_inputs res < length (heap w3)" by simp
  then have "deref w' (report_inputs res) = define_props assigned (deref w3 (report_inputs res))"
    by (simp add: w' deref_emit deref_update_object length_heap_emit)
  with gi a show ?thesis by - (intro exI conjI, assumption+)
qed

lemma normalized_flag:
  assumes "wf_obj raw" and "k \<in> set (object_keys raw)" and "gap_regex_test k"
  shows "get_prop (suppress_pen_test (invert_gap_flags raw)) k = JBool (\<not> truthy (get_prop raw k))"
proof -
  from assms(3) have "k \<notin> set PEN_TEST_QUESTIONS"
    using pen_test_questions_not_flags by blast
  then have "get_prop (suppress_pen_test (invert_gap_flags raw)) k = get_prop (invert_gap_flags raw) k"
    by (simp add: get_prop_suppress_pen_test)
  also have "\<dots> = JBool (\<not> truthy (get_prop raw k))"
    using assms by (simp add: get_prop_invert_gap_flags)
  finally show ?thesis .
qed

lemma context_names_not_flags:
  "\<not> gap_regex_test ''date'' \<and> \<not> gap_regex_test ''policyTOC'' \<and>
   \<not> gap_regex_test ''isHIPAACoveredEntityText'' \<and> \<not> gap_regex_test ''isHIPAABusinessAssociateText'' \<and>
   \<not> gap_regex_test ''gapList'' \<and> \<not> gap_regex_test ''gapSummary'' \<and>
   \<not> gap_regex_test ''hipaaControlsMapping'' \<and> \<not> gap_regex_test ''riskList''"
  by simp

lemma context_get:
  assumes "gatherInputs c program cfg w = (Inr inputs, w')"
    and "wf_obj (safeInquirerPrompt c (standard program))"
    and "k \<in> set (object_keys (suppress_pen_test (invert_gap_flags (safeInquirerPrompt c (standard program)))))"
    and "k \<notin> {''date'', ''policyTOC'', ''isHIPAACoveredEntityText'', ''isHIPAABusinessAssociateText''}"
  shows "get_prop (deref w' inputs) k =
           get_prop (suppress_pen_test (invert_gap_flags (safeInquirerPrompt c (standard program)))) k"
proof -
  let ?n = "suppress_pen_test (invert_gap_flags (safeInquirerPrompt c (standard program)))"
  from gatherInputs_context [OF assms(1)] obtain org extra where
    d: "deref w' inputs = define_props (org @ ?n @ extra) []"
    and e: "map fst extra =
      [''date'', ''policyTOC'', ''isHIPAACoveredEntityText'', ''isHIPAABusinessAssociateText'']"
    by (elim exE conjE)
  have "fst ` set extra = set (map fst extra)" by simp
  with e have "fst ` set extra =
      {''date'', ''policyTOC'', ''isHIPAACoveredEntityText'', ''isHIPAABusinessAssociateText''}"
    by (simp only: list.simps(15) empty_set)
  with assms(4) have k: "k \<notin> fst ` set extra" by simp
  from assms(2) have "wf_obj ?n"
    by (simp add: wf_obj_invert_gap_flags wf_obj_suppress_pen_test)
  from get_prop_spread [OF this assms(3) k] d show ?thesis by simp
qed

lemma report_get:
  assumes "run c program w = (Inr res, w')"
    and "wf_obj (safeInquirerPrompt c (standard program))"
    and "k \<in> set (object_keys (suppress_pen_test (invert_gap_flags (safeInquirerPrompt c (standard program)))))"
    and "k \<notin> {''date'', ''policyTOC'', ''isHIPAACoveredEntityText'', ''isHIPAABusinessAssociateText''}"
    and "k \<notin> {''gapList'', ''gapSummary'', ''hipaaControlsMapping'', ''riskList''}"
  shows "get_prop (deref w' (report_inputs res)) k =
           get_prop (suppress_pen_test (invert_gap_flags (safeInquirerPrompt c (standard program)))) k"
proof -
  from run_context [OF assms(1)] obtain cfg w2 w3 assigned where
    g: "gatherInputs c program cfg w2 = (Inr (report_inputs res), w3)"
    and d: "deref w' (report_inputs res) = define_props assigned (deref w3 (report_inputs res))"
    and a: "map fst assigned = [''gapList'', ''gapSummary'', ''hipaaControlsMapping'', ''riskList'']"
    by (elim exE conjE)
  have "fst ` set assigned = set (map fst assigned)" by simp
  with a have "fst ` set assigned = {''gapList'', ''gapSummary'', ''hipaaControlsMapping'', ''riskList''}"
    by (simp only: list.simps(15) empty_set)
  with assms(5) have "k \<notin> fst ` set assigned" by simp
  then have "get_prop (deref w' (report_inputs res)) k = get_prop (deref w3 (report_inputs res)) k"
    unfolding d by (rule fold_define_get_notin)
  also have "\<dots> = get_prop (suppress_pen_test (invert_gap_flags (safeInquirerPrompt c (standard program)))) k"
    using g assms(2,3,4) by (rule context_get)
  finally show ?thesis .
qed

lemma example_run_no_pen_test:
  "run example_collab_no_pen_test example_program empty_world =
     (Inr \<lparr>report_inputs = 2, allGaps = [\<lparr>ref = ''Pen Test'', title = ''(see above)''\<rparr>]\<rparr>,
      \<lparr>heap =
         [[(''isHIPAACoveredEntity'', JBool True)],
          [(''hasPenTestGap'', JBool True),
           (''lastPenTestDate'', JStr ''*TBD*''),
           (''lastPenTestProvider'', JStr ''*TBD*''),
           (''penTestFrequency'', JStr ''*TBD*''),
           (''nextPenTestDate'', JStr ''*TBD*'')],
          [(''isHIPAACoveredEntity'', JBool True),
           (''hasPenTestGap'', JBool True),
           (''lastPenTestDate'', JStr ''*TBD*''),
           (''lastPenTestProvider'', JStr ''*TBD*''),
           (''penTestFrequency'', JStr ''*TBD*''),
           (''nextPenTestDate'', JStr ''*TBD*''),
           (''date'', JObject 0),
           (''policyTOC'', JStr ''toc''),
           (''isHIPAACoveredEntityText'', JStr ''is''),
           (''isHIPAABusinessAssociateText'', JStr ''is not''),
           (''gapList'', JStr ''list''),
           (''gapSummary'', JStr ''summary''),
           (''hipaaControlsMapping'', JStr ''mapping''),
           (''riskList'', JStr ''Detailed risk items omitted.'')]],
       trace = [ReadConfig ''config.json'', Prompt (Some ''hipaa''), RenderStandard ''hipaa'',
                GenerateReport 2 ''hipaa'']\<rparr>)"
  by (simp add: example_collab_no_pen_test_def example_defs run_def present_def string_of_def
        load_config_def risk_list_def PEN_TEST_QUESTIONS_def
        gatherInputs_def resolve_paths_def Let_def alloc_def emit_def normalize_in_place_def
        update_object_def deref_def invert_gap_flags_def suppress_pen_test_def define_props_def
        object_keys_def get_prop_def is_text_def to_lower_case_def char_to_lower_def
        calculateInputGaps_def gap_of_key_def trim_def combine_gaps_def char_class_defs)

lemma normalized_pen_test:
  assumes "get_prop (invert_gap_flags raw) ''hasPenTestGap'' = JBool True"
  shows "map (get_prop (suppress_pen_test (invert_gap_flags raw)))
           [''lastPenTestDate'', ''lastPenTestProvider'', ''penTestFrequency'', ''nextPenTestDate''] =
           [JStr ''*TBD*'', JStr ''*TBD*'', JStr ''*TBD*'', JStr ''*TBD*''] \<and>
         get_prop (suppress_pen_test (invert_gap_flags raw)) ''hasPenTestGap'' = JBool True \<and>
         set PEN_TEST_QUESTIONS \<union> {''hasPenTestGap''}
           \<subseteq> set (object_keys (suppress_pen_test (invert_gap_flags raw)))"
proof -
  from assms have "get_prop (invert_gap_flags raw) ''hasPenTestGap'' \<noteq> JUndefined" by simp
  then have "map_of (invert_gap_flags raw) ''hasPenTestGap'' \<noteq> None"
    by (cases "map_of (invert_gap_flags raw) ''hasPenTestGap''") (simp_all add: get_prop_def)
  then have "''hasPenTestGap'' \<in> set (object_keys (invert_gap_flags raw))"
    by (simp add: object_keys_def map_of_eq_None_iff)
  with assms show ?thesis
    by (simp add: get_prop_suppress_pen_test keys_suppress_pen_test PEN_TEST_QUESTIONS_def)
qed

section \<open>The claims\<close>

text \<open>
  Claim C1. The input gap extractor is claimed to emit a gap for a key of the form
  \<^verbatim>\<open>has<Topic>Gap\<close> only when its value is \<^verbatim>\<open>true\<close>, and none for a matching key
  that holds \<^verbatim>\<open>false\<close>. The code never reads the value: on the answers
  \<^verbatim>\<open>{hasPenTestGap: true, hasEncryptionGap: false}\<close> it emits a gap for both keys.
\<close>

theorem extractor_ignores_answer_value:
  "calculateInputGaps [(''hasPenTestGap'', JBool True), (''hasEncryptionGap'', JBool False)] =
     [\<lparr>ref = ''Pen Test'', title = ''(see above)''\<rparr>,
      \<lparr>ref = ''Encryption'', title = ''(see above)''\<rparr>]"
  by (simp add: calculateInputGaps_def object_keys_def gap_of_key_def trim_def char_class_defs)

text \<open>
  Claim C2, as stated: normalization does not mutate the raw answers object. The
  object at address 1 holds the raw answer \<^verbatim>\<open>hasPenTestGap: true\<close> before the step
  and \<^verbatim>\<open>hasPenTestGap: false\<close> after it: the step assigns to the object itself.
\<close>

theorem answers_mutated_counterexample:
  "deref \<lparr>heap = [[(''isHIPAACoveredEntity'', JBool True)], [(''hasPenTestGap'', JBool True)]],
          trace = []\<rparr> 1 = [(''hasPenTestGap'', JBool True)] \<and>
   deref (normalize_in_place 1
            \<lparr>heap = [[(''isHIPAACoveredEntity'', JBool True)], [(''hasPenTestGap'', JBool True)]],
             trace = []\<rparr>) 1 = [(''hasPenTestGap'', JBool False)]"
  by (simp add: normalize_in_place_def update_object_def deref_def invert_gap_flags_def
        suppress_pen_test_def object_keys_def get_prop_def is_line_terminator_def)

text \<open>
  Claim C2, amended. Normalization assigns in place to the answers object that the
  prompt returned, which afterwards holds the inverted gap flags and the suppressed
  pen test answers, and it changes no other object and records no call. In
  \<^verbatim>\<open>gatherInputs\<close> every object that existed before the call, the organization object
  among them, is left as it was, and the context returned is a new object.
\<close>

theorem normalization_frame:
  "(\<forall>b. b \<noteq> a \<longrightarrow> deref (normalize_in_place a w) b = deref w b) \<and>
   (a < length (heap w) \<longrightarrow>
      deref (normalize_in_place a w) a = suppress_pen_test (invert_gap_flags (deref w a))) \<and>
   trace (normalize_in_place a w) = trace w \<and>
   (\<forall>inputs w'. gatherInputs c program cfg w = (Inr inputs, w') \<longrightarrow>
      (\<forall>b<length (heap w). deref w' b = deref w b) \<and>
      deref w' (length (heap w)) =
        suppress_pen_test (invert_gap_flags (safeInquirerPrompt c (standard program))) \<and>
      inputs = Suc (length (heap w)) \<and> length (heap w') = length (heap w) + 2)"
proof -
  have 1: "\<forall>b. b \<noteq> a \<longrightarrow> deref (normalize_in_place a w) b = deref w b"
    by (simp add: deref_normalize_in_place)
  have 2: "a < length (heap w) \<longrightarrow>
      deref (normalize_in_place a w) a = suppress_pen_test (invert_gap_flags (deref w a))"
    by (simp add: deref_normalize_in_place)
  have 3: "trace (normalize_in_place a w) = trace w"
    by (simp add: normalize_in_place_def trace_update_object)
  have 4: "\<forall>inputs w'. gatherInputs c program cfg w = (Inr inputs, w') \<longrightarrow>
      (\<forall>b<length (heap w). deref w' b = deref w b) \<and>
      deref w' (length (heap w)) =
        suppress_pen_test (invert_gap_flags (safeInquirerPrompt c (standard program))) \<and>
      inputs = Suc (length (heap w)) \<and> length (heap w') = length (heap w) + 2"
    using gatherInputs_Inr by blast
  from 1 2 3 4 show ?thesis by blast
qed

theorem normalization_frame_witness:
  "fst (gatherInputs example_collab example_program \<lparr>organization = 0, rest = JNull\<rparr>
         \<lparr>heap = [[(''isHIPAACoveredEntity'', JBool True)]], trace = []\<rparr>) = Inr 2 \<and>
   deref (snd (gatherInputs example_collab example_program \<lparr>organization = 0, rest = JNull\<rparr>
         \<lparr>heap = [[(''isHIPAACoveredEntity'', JBool True)]], trace = []\<rparr>)) 0 =
     [(''isHIPAACoveredEntity'', JBool True)] \<and>
   deref (snd (gatherInputs example_collab example_program \<lparr>organization = 0, rest = JNull\<rparr>
         \<lparr>heap = [[(''isHIPAACoveredEntity'', JBool True)]], trace = []\<rparr>)) 1 =
     [(''hasPenTestGap'', JBool False)]"
proof -
  let ?w = "\<lparr>heap = [[(''isHIPAACoveredEntity'', JBool True)]], trace = []\<rparr>"
  let ?cfg = "\<lparr>organization = 0, rest = JNull\<rparr>"
  have "validateOrgValues example_collab (deref ?w (organization ?cfg))"
    by (simp add: example_collab_def)
  from gatherInputs_total [OF this, of example_program] obtain inputs w' where
    g: "gatherInputs example_collab example_program ?cfg ?w = (Inr inputs, w')" by auto
  have p: "suppress_pen_test (invert_gap_flags (safeInquirerPrompt example_collab (standard example_program)))
             = [(''hasPenTestGap'', JBool False)]"
    by (simp add: example_collab_def invert_gap_flags_def suppress_pen_test_def object_keys_def
          get_prop_def is_line_terminator_def)
  from normalization_frame [of 0 ?w example_collab example_program ?cfg] g
  have "(\<forall>b<length (heap ?w). deref w' b = deref ?w b) \<and>
        deref w' (length (heap ?w)) =
          suppress_pen_test (invert_gap_flags (safeInquirerPrompt example_collab (standard example_program))) \<and>
        inputs = Suc (length (heap ?w))"
    by blast
  then have "deref w' 0 = deref ?w 0 \<and> deref w' 1 = [(''hasPenTestGap'', JBool False)] \<and> inputs = 2"
    by (simp add: p)
  with g show ?thesis by (simp add: deref_def)
qed

text \<open>
  Claim C3, as stated: the reference of a gap is never the empty string. The key
  \<^verbatim>\<open>hasGap\<close> matches with an empty topic and yields the empty reference.
\<close>

theorem empty_ref_counterexample:
  "calculateInputGaps [(''hasGap'', JBool True)] = [\<lparr>ref = [], title = ''(see above)''\<rparr>]"
  by (simp add: calculateInputGaps_def object_keys_def gap_of_key_def trim_def char_class_defs)

text \<open>
  Claim C3, amended. Every gap of the input gap extractor comes from a key of the
  input whose captured topic, spaced into words and trimmed, is the reference; the
  reference has no leading or trailing white space, and it is empty exactly when the
  topic consists of white space only.
\<close>

theorem gap_ref_trimmed:
  assumes "g \<in> set (calculateInputGaps inputs)"
  shows "(ref g \<noteq> [] \<longrightarrow> \<not> is_white_space (hd (ref g)) \<and> \<not> is_white_space (last (ref g))) \<and>
         (\<exists>k\<in>set (object_keys inputs). \<exists>topic.
            gap_regex_exec k = Some topic \<and> ref g = trim (space_words topic) \<and>
            (ref g = [] \<longleftrightarrow> (\<forall>c\<in>set topic. is_white_space c)))"
proof -
  from assms obtain k where k: "k \<in> set (object_keys inputs)" and g: "g \<in> set (gap_of_key k)"
    by (auto simp: calculateInputGaps_concat)
  from gap_of_key_cases [OF g] obtain topic where
    t: "gap_regex_exec k = Some topic" and r: "ref g = trim (space_words topic)" by auto
  have e: "ref g = [] \<longleftrightarrow> (\<forall>c\<in>set topic. is_white_space c)"
    by (simp add: r trim_empty_iff space_words_all_white)
  have "ref g \<noteq> [] \<longrightarrow> \<not> is_white_space (hd (ref g)) \<and> \<not> is_white_space (last (ref g))"
    unfolding r using trim_no_outer_white_space by blast
  with k t r e show ?thesis by blast
qed

theorem gap_ref_trimmed_witness:
  "\<lparr>ref = ''Pen Test'', title = ''(see above)''\<rparr>
     \<in> set (calculateInputGaps [(''hasPenTestGap'', JBool True)]) \<and>
   \<not> is_white_space (hd ''Pen Test'') \<and> \<not> is_white_space (last ''Pen Test'')"
proof -
  have h: "\<lparr>ref = ''Pen Test'', title = ''(see above)''\<rparr>
             \<in> set (calculateInputGaps [(''hasPenTestGap'', JBool True)])"
    by (simp add: calculateInputGaps_def object_keys_def gap_of_key_def trim_def char_class_defs)
  from gap_ref_trimmed [OF h] h show ?thesis by simp
qed

text \<open>
  Claim C4, as stated: the space goes where a lower-case letter is directly followed
  by an upper-case letter. For the key \<^verbatim>\<open>hasMFAPolicyGap\<close> the code yields
  \<^verbatim>\<open>MFA Policy\<close>, while the stated rule leaves \<^verbatim>\<open>MFAPolicy\<close> as it is.
\<close>

theorem spacing_rule_counterexample:
  "calculateInputGaps [(''hasMFAPolicyGap'', JBool True)] =
     [\<lparr>ref = ''MFA Policy'', title = ''(see above)''\<rparr>] \<and>
   trim (spec_space_lower_upper ''MFAPolicy'') = ''MFAPolicy''"
  by (simp add: calculateInputGaps_def object_keys_def gap_of_key_def trim_def char_class_defs)

text \<open>
  Claim C4, amended. For every key \<^verbatim>\<open>has<Topic>Gap\<close> whose topic holds no line
  terminator, wherever it stands in the input, the gap emitted for it has as its
  reference the topic with a single space in front of every upper-case letter that is
  directly followed by a lower-case letter, then trimmed. The topic \<^verbatim>\<open>PenTest\<close>
  yields \<^verbatim>\<open>Pen Test\<close>.
\<close>

theorem gap_ref_spacing:
  assumes "\<forall>c\<in>set topic. \<not> is_line_terminator c"
  shows "calculateInputGaps (before @ [(''has'' @ topic @ ''Gap'', v)] @ after) =
           calculateInputGaps before
           @ [\<lparr>ref = trim (space_before_capitalised topic), title = ''(see above)''\<rparr>]
           @ calculateInputGaps after \<and>
         space_before_capitalised topic = space_words topic \<and>
         trim (space_words ''PenTest'') = ''Pen Test''"
proof -
  from assms have "gap_regex_exec (''has'' @ topic @ ''Gap'') = Some topic"
    by (rule gap_regex_exec_exact)
  then have "gap_of_key (''has'' @ topic @ ''Gap'') =
      [\<lparr>ref = trim (space_before_capitalised topic), title = ''(see above)''\<rparr>]"
    by (simp add: gap_of_key_def space_words_positionwise)
  then have "calculateInputGaps (before @ [(''has'' @ topic @ ''Gap'', v)] @ after) =
           calculateInputGaps before
           @ [\<lparr>ref = trim (space_before_capitalised topic), title = ''(see above)''\<rparr>]
           @ calculateInputGaps after"
    by (simp add: calculateInputGaps_concat object_keys_def)
  moreover have "trim (space_words ''PenTest'') = ''Pen Test''"
    by (simp add: trim_def char_class_defs)
  ultimately show ?thesis by (simp add: space_words_positionwise)
qed

theorem gap_ref_spacing_witness:
  "calculateInputGaps [(''has'' @ ''PenTest'' @ ''Gap'', JBool True)] =
     [\<lparr>ref = ''Pen Test'', title = ''(see above)''\<rparr>]"
proof -
  have h: "\<forall>c\<in>set ''PenTest''. \<not> is_line_terminator c"
    by (simp add: is_line_terminator_def)
  have c: "calculateInputGaps [] = []" by (simp add: calculateInputGaps_def object_keys_def)
  have s: "trim (space_before_capitalised ''PenTest'') = ''Pen Test''"
    by (simp add: trim_def char_class_defs)
  from gap_ref_spacing [OF h, of "[]" "JBool True" "[]"] show ?thesis
    by (simp add: c s)
qed

text \<open>
  Claim C5. In \<^verbatim>\<open>gatherInputs\<close>, for every question of the prompted answers whose name
  matches the gap-flag pattern, the value left in the answers object and in the
  context returned is the boolean negation of the raw answer, a single negation: a
  raw \<^verbatim>\<open>true\<close> becomes \<^verbatim>\<open>false\<close> and a raw \<^verbatim>\<open>false\<close> becomes \<^verbatim>\<open>true\<close>.
  \<^verbatim>\<open>gatherInputs\<close> returns when the organization values are valid, and the report
  context of every completed run holds that single negation as well.
\<close>

theorem gap_flag_inverted_once:
  assumes "wf_obj (safeInquirerPrompt c (standard program))"
    and "k \<in> set (object_keys (safeInquirerPrompt c (standard program)))"
    and "gap_regex_test k"
  shows "(\<forall>inputs w'. gatherInputs c program cfg w = (Inr inputs, w') \<longrightarrow>
            get_prop (deref w' (length (heap w))) k =
              JBool (\<not> truthy (get_prop (safeInquirerPrompt c (standard program)) k)) \<and>
            get_prop (deref w' inputs) k =
              JBool (\<not> truthy (get_prop (safeInquirerPrompt c (standard program)) k)) \<and>
            (get_prop (safeInquirerPrompt c (standard program)) k = JBool True \<longrightarrow>
               get_prop (deref w' inputs) k = JBool False) \<and>
            (get_prop (safeInquirerPrompt c (standard program)) k = JBool False \<longrightarrow>
               get_prop (deref w' inputs) k = JBool True)) \<and>
         (validateOrgValues c (deref w (organization cfg)) \<longrightarrow>
            (\<exists>inputs w'. gatherInputs c program cfg w = (Inr inputs, w'))) \<and>
         (\<forall>res w'. run c program w = (Inr res, w') \<longrightarrow>
            get_prop (deref w' (report_inputs res)) k =
              JBool (\<not> truthy (get_prop (safeInquirerPrompt c (standard program)) k)))"
proof -
  let ?raw = "safeInquirerPrompt c (standard program)"
  let ?n = "suppress_pen_test (invert_gap_flags ?raw)"
  have n: "get_prop ?n k = JBool (\<not> truthy (get_prop ?raw k))"
    using assms by (rule normalized_flag)
  have kn: "k \<in> set (object_keys ?n)"
    using assms(2) by (simp add: keys_suppress_pen_test keys_invert_gap_flags)
  have k1: "k \<notin> {''date'', ''policyTOC'', ''isHIPAACoveredEntityText'', ''isHIPAABusinessAssociateText''}"
    using assms(3) context_names_not_flags by auto
  have k2: "k \<notin> {''gapList'', ''gapSummary'', ''hipaaControlsMapping'', ''riskList''}"
    using assms(3) context_names_not_flags by auto
  have 1: "\<forall>inputs w'. gatherInputs c program cfg w = (Inr inputs, w') \<longrightarrow>
            get_prop (deref w' (length (heap w))) k = JBool (\<not> truthy (get_prop ?raw k)) \<and>
            get_prop (deref w' inputs) k = JBool (\<not> truthy (get_prop ?raw k)) \<and>
            (get_prop ?raw k = JBool True \<longrightarrow> get_prop (deref w' inputs) k = JBool False) \<and>
            (get_prop ?raw k = JBool False \<longrightarrow> get_prop (deref w' inputs) k = JBool True)"
  proof (intro allI impI)
    fix inputs w' assume g: "gatherInputs c program cfg w = (Inr inputs, w')"
    from gatherInputs_Inr [OF g] have "deref w' (length (heap w)) = ?n" by simp
    with n have a: "get_prop (deref w' (length (heap w))) k = JBool (\<not> truthy (get_prop ?raw k))"
      by simp
    from context_get [OF g assms(1) kn k1] n
    have b: "get_prop (deref w' inputs) k = JBool (\<not> truthy (get_prop ?raw k))" by simp
    from a b show "get_prop (deref w' (length (heap w))) k = JBool (\<not> truthy (get_prop ?raw k)) \<and>
            get_prop (deref w' inputs) k = JBool (\<not> truthy (get_prop ?raw k)) \<and>
            (get_prop ?raw k = JBool True \<longrightarrow> get_prop (deref w' inputs) k = JBool False) \<and>
            (get_prop ?raw k = JBool False \<longrightarrow> get_prop (deref w' inputs) k = JBool True)"
      by simp
  qed
  have 2: "validateOrgValues c (deref w (organization cfg)) \<longrightarrow>
            (\<exists>inputs w'. gatherInputs c program cfg w = (Inr inputs, w'))"
    using gatherInputs_total by blast
  have 3: "\<forall>res w'. run c program w = (Inr res, w') \<longrightarrow>
            get_prop (deref w' (report_inputs res)) k = JBool (\<not> truthy (get_prop ?raw k))"
  proof (intro allI impI)
    fix res w' assume r: "run c program w = (Inr res, w')"
    from report_get [OF r assms(1) kn k1 k2] n
    show "get_prop (deref w' (report_inputs res)) k = JBool (\<not> truthy (get_prop ?raw k))" by simp
  qed
  from 1 2 3 show ?thesis by (intro conjI)
qed

theorem gap_flag_inverted_once_witness:
  "get_prop (safeInquirerPrompt example_collab (standard example_program)) ''hasPenTestGap'' = JBool True \<and>
   fst (run example_collab example_program empty_world) =
     Inr \<lparr>report_inputs = 2, allGaps = [\<lparr>ref = ''Pen Test'', title = ''(see above)''\<rparr>]\<rparr> \<and>
   get_prop (deref (snd (run example_collab example_program empty_world)) 2) ''hasPenTestGap'' = JBool False \<and>
   fst (gatherInputs example_collab example_program \<lparr>organization = 0, rest = JNull\<rparr>
         \<lparr>heap = [[(''isHIPAACoveredEntity'', JBool True)]], trace = []\<rparr>) = Inr 2 \<and>
   get_prop (deref (snd (gatherInputs example_collab example_program \<lparr>organization = 0, rest = JNull\<rparr>
         \<lparr>heap = [[(''isHIPAACoveredEntity'', JBool True)]], trace = []\<rparr>)) 2) ''hasPenTestGap'' = JBool False"
proof -
  let ?w = "\<lparr>heap = [[(''isHIPAACoveredEntity'', JBool True)]], trace = []\<rparr>"
  let ?cfg = "\<lparr>organization = 0, rest = JNull\<rparr>"
  have h1: "wf_obj (safeInquirerPrompt example_collab (standard example_program))"
    by (simp add: wf_obj_def example_collab_def)
  have h2: "''hasPenTestGap'' \<in> set (object_keys (safeInquirerPrompt example_collab (standard example_program)))"
    by (simp add: object_keys_def example_collab_def)
  have h3: "gap_regex_test ''hasPenTestGap''" by (simp add: is_line_terminator_def)
  have v: "get_prop (safeInquirerPrompt example_collab (standard example_program)) ''hasPenTestGap'' = JBool True"
    by (simp add: get_prop_def example_collab_def)
  have ok: "validateOrgValues example_collab (deref ?w (organization ?cfg))"
    by (simp add: example_collab_def)
  note t = gap_flag_inverted_once [OF h1 h2 h3, of ?cfg ?w]
  from t ok obtain inputs w' where
    g: "gatherInputs example_collab example_program ?cfg ?w = (Inr inputs, w')" by auto
  from gatherInputs_Inr [OF g] have i: "inputs = 2" by simp
  from t g v have c: "get_prop (deref w' inputs) ''hasPenTestGap'' = JBool False" by auto
  from gap_flag_inverted_once [OF h1 h2 h3, of ?cfg empty_world] example_run v
  have r: "get_prop (deref (snd (run example_collab example_program empty_world)) 2) ''hasPenTestGap'' = JBool False"
    by simp
  from v g i c r example_run show ?thesis by simp
qed

text \<open>
  Claim C6. When \<^verbatim>\<open>hasPenTestGap\<close> is \<^verbatim>\<open>true\<close> after the inversion of the prompted
  answers, \<^verbatim>\<open>gatherInputs\<close> leaves the sentinel \<^verbatim>\<open>*TBD*\<close> for \<^verbatim>\<open>lastPenTestDate\<close>,
  \<^verbatim>\<open>lastPenTestProvider\<close>, \<^verbatim>\<open>penTestFrequency\<close> and \<^verbatim>\<open>nextPenTestDate\<close>, whatever was
  answered, in the answers object and in the context returned, the flag staying
  \<^verbatim>\<open>true\<close>. \<^verbatim>\<open>gatherInputs\<close> returns when the organization values are valid, and the
  report context of every completed run holds the four sentinels as well.
\<close>

theorem pen_test_suppressed:
  assumes "wf_obj (safeInquirerPrompt c (standard program))"
    and "get_prop (invert_gap_flags (safeInquirerPrompt c (standard program))) ''hasPenTestGap'' = JBool True"
  shows "(\<forall>inputs w'. gatherInputs c program cfg w = (Inr inputs, w') \<longrightarrow>
            map (get_prop (deref w' (length (heap w))))
              [''lastPenTestDate'', ''lastPenTestProvider'', ''penTestFrequency'', ''nextPenTestDate''] =
              [JStr ''*TBD*'', JStr ''*TBD*'', JStr ''*TBD*'', JStr ''*TBD*''] \<and>
            get_prop (deref w' (length (heap w))) ''hasPenTestGap'' = JBool True \<and>
            map (get_prop (deref w' inputs))
              [''lastPenTestDate'', ''lastPenTestProvider'', ''penTestFrequency'', ''nextPenTestDate''] =
              [JStr ''*TBD*'', JStr ''*TBD*'', JStr ''*TBD*'', JStr ''*TBD*''] \<and>
            get_prop (deref w' inputs) ''hasPenTestGap'' = JBool True) \<and>
         (validateOrgValues c (deref w (organization cfg)) \<longrightarrow>
            (\<exists>inputs w'. gatherInputs c program cfg w = (Inr inputs, w'))) \<and>
         (\<forall>res w'. run c program w = (Inr res, w') \<longrightarrow>
            map (get_prop (deref w' (report_inputs res)))
              [''lastPenTestDate'', ''lastPenTestProvider'', ''penTestFrequency'', ''nextPenTestDate''] =
              [JStr ''*TBD*'', JStr ''*TBD*'', JStr ''*TBD*'', JStr ''*TBD*''] \<and>
            get_prop (deref w' (report_inputs res)) ''hasPenTestGap'' = JBool True)"
proof -
  let ?raw = "safeInquirerPrompt c (standard program)"
  let ?n = "suppress_pen_test (invert_gap_flags ?raw)"
  let ?names = "[''lastPenTestDate'', ''lastPenTestProvider'', ''penTestFrequency'', ''nextPenTestDate'']"
  let ?tbd = "[JStr ''*TBD*'', JStr ''*TBD*'', JStr ''*TBD*'', JStr ''*TBD*'']"
  from normalized_pen_test [OF assms(2)] have
    n: "map (get_prop ?n) ?names = ?tbd" and f: "get_prop ?n ''hasPenTestGap'' = JBool True"
    and keys: "set PEN_TEST_QUESTIONS \<union> {''hasPenTestGap''} \<subseteq> set (object_keys ?n)"
    by blast+
  have same: "map (get_prop ob) ?names = ?tbd \<and> get_prop ob ''hasPenTestGap'' = JBool True"
    if "\<And>k. k \<in> set PEN_TEST_QUESTIONS \<union> {''hasPenTestGap''} \<Longrightarrow> get_prop ob k = get_prop ?n k" for ob
  proof -
    have "get_prop ob ''lastPenTestDate'' = get_prop ?n ''lastPenTestDate''"
      "get_prop ob ''lastPenTestProvider'' = get_prop ?n ''lastPenTestProvider''"
      "get_prop ob ''penTestFrequency'' = get_prop ?n ''penTestFrequency''"
      "get_prop ob ''nextPenTestDate'' = get_prop ?n ''nextPenTestDate''"
      "get_prop ob ''hasPenTestGap'' = get_prop ?n ''hasPenTestGap''"
      by (rule that, simp add: PEN_TEST_QUESTIONS_def)+
    with n f show ?thesis by simp
  qed
  have k1: "k \<notin> {''date'', ''policyTOC'', ''isHIPAACoveredEntityText'', ''isHIPAABusinessAssociateText''}"
    and k2: "k \<notin> {''gapList'', ''gapSummary'', ''hipaaControlsMapping'', ''riskList''}"
    if "k \<in> set PEN_TEST_QUESTIONS \<union> {''hasPenTestGap''}" for k
    using that by (auto simp: PEN_TEST_QUESTIONS_def)
  have 1: "\<forall>inputs w'. gatherInputs c program cfg w = (Inr inputs, w') \<longrightarrow>
            map (get_prop (deref w' (length (heap w)))) ?names = ?tbd \<and>
            get_prop (deref w' (length (heap w))) ''hasPenTestGap'' = JBool True \<and>
            map (get_prop (deref w' inputs)) ?names = ?tbd \<and>
            get_prop (deref w' inputs) ''hasPenTestGap'' = JBool True"
  proof (intro allI impI)
    fix inputs w' assume g: "gatherInputs c program cfg w = (Inr inputs, w')"
    from gatherInputs_Inr [OF g] have a: "deref w' (length (heap w)) = ?n" by simp
    have "map (get_prop (deref w' inputs)) ?names = ?tbd \<and>
          get_prop (deref w' inputs) ''hasPenTestGap'' = JBool True"
    proof (rule same)
      fix k assume k: "k \<in> set PEN_TEST_QUESTIONS \<union> {''hasPenTestGap''}"
      with keys have "k \<in> set (object_keys ?n)" by blast
      from context_get [OF g assms(1) this k1 [OF k]]
      show "get_prop (deref w' inputs) k = get_prop ?n k" .
    qed
    with n f a show "map (get_prop (deref w' (length (heap w)))) ?names = ?tbd \<and>
            get_prop (deref w' (length (heap w))) ''hasPenTestGap'' = JBool True \<and>
            map (get_prop (deref w' inputs)) ?names = ?tbd \<and>
            get_prop (deref w' inputs) ''hasPenTestGap'' = JBool True"
      by simp
  qed
  have 2: "validateOrgValues c (deref w (organization cfg)) \<longrightarrow>
            (\<exists>inputs w'. gatherInputs c program cfg w = (Inr inputs, w'))"
    using gatherInputs_total by blast
  have 3: "\<forall>res w'. run c program w = (Inr res, w') \<longrightarrow>
            map (get_prop (deref w' (report_inputs res))) ?names = ?tbd \<and>
            get_prop (deref w' (report_inputs res)) ''hasPenTestGap'' = JBool True"
  proof (intro allI impI)
    fix res w' assume r: "run c program w = (Inr res, w')"
    show "map (get_prop (deref w' (report_inputs res))) ?names = ?tbd \<and>
            get_prop (deref w' (report_inputs res)) ''hasPenTestGap'' = JBool True"
    proof (rule same)
      fix k assume k: "k \<in> set PEN_TEST_QUESTIONS \<union> {''hasPenTestGap''}"
      with keys have "k \<in> set (object_keys ?n)" by blast
      from report_get [OF r assms(1) this k1 [OF k] k2 [OF k]]
      show "get_prop (deref w' (report_inputs res)) k = get_prop ?n k" .
    qed
  qed
  from 1 2 3 show ?thesis by (intro conjI)
qed

theorem pen_test_suppressed_witness:
  "get_prop (safeInquirerPrompt example_collab_no_pen_test (standard example_program)) ''lastPenTestDate'' =
     JStr ''2020-01-01'' \<and>
   get_prop (invert_gap_flags (safeInquirerPrompt example_collab_no_pen_test (standard example_program)))
     ''hasPenTestGap'' = JBool True \<and>
   fst (run example_collab_no_pen_test example_program empty_world) =
     Inr \<lparr>report_inputs = 2, allGaps = [\<lparr>ref = ''Pen Test'', title = ''(see above)''\<rparr>]\<rparr> \<and>
   map (get_prop (deref (snd (run example_collab_no_pen_test example_program empty_world)) 2))
     [''lastPenTestDate'', ''lastPenTestProvider'', ''penTestFrequency'', ''nextPenTestDate''] =
     [JStr ''*TBD*'', JStr ''*TBD*'', JStr ''*TBD*'', JStr ''*TBD*'']"
proof -
  have h1: "wf_obj (safeInquirerPrompt example_collab_no_pen_test (standard example_program))"
    by (simp add: wf_obj_def example_collab_no_pen_test_def)
  have h2: "get_prop (invert_gap_flags (safeInquirerPrompt example_collab_no_pen_test (standard example_program)))
     ''hasPenTestGap'' = JBool True"
    by (simp add: example_collab_no_pen_test_def invert_gap_flags_def object_keys_def get_prop_def
          is_line_terminator_def)
  have v: "get_prop (safeInquirerPrompt example_collab_no_pen_test (standard example_program)) ''lastPenTestDate'' =
     JStr ''2020-01-01''"
    by (simp add: example_collab_no_pen_test_def get_prop_def)
  from pen_test_suppressed [OF h1 h2, of "\<lparr>organization = 0, rest = JNull\<rparr>" empty_world]
    example_run_no_pen_test
  have "map (get_prop (deref (snd (run example_collab_no_pen_test example_program empty_world)) 2))
     [''lastPenTestDate'', ''lastPenTestProvider'', ''penTestFrequency'', ''nextPenTestDate''] =
     [JStr ''*TBD*'', JStr ''*TBD*'', JStr ''*TBD*'', JStr ''*TBD*'']"
    by simp
  with v h2 example_run_no_pen_test show ?thesis by simp
qed

text \<open>
  Claim C7. Aggregation puts the gaps of the interview before the gaps of the
  controls and procedures and keeps the order inside each list: one gap of each
  gives the pair in that order, and in general the result begins with the input gaps
  and continues with the control and procedure gaps. The gaps of a completed run are
  those extracted from its report context followed by those found in the controls
  and procedures.
\<close>

theorem aggregation_order:
  "combine_gaps [gapA] [gapB] = [gapA, gapB] \<and>
   take (length inputGaps) (combine_gaps inputGaps cpGaps) = inputGaps \<and>
   drop (length inputGaps) (combine_gaps inputGaps cpGaps) = cpGaps \<and>
   (\<forall>res w'. run c program w = (Inr res, w') \<longrightarrow>
      (\<exists>cfg w2 w3 found annotatedRefs.
         gatherInputs c program cfg w2 = (Inr (report_inputs res), w3) \<and>
         calculateCPGaps c (to_lower_case (string_of (standard program)))
           (deref w3 (organization cfg)) (rest cfg) (resolve_paths c program) = Inr (found, annotatedRefs) \<and>
         allGaps res = calculateInputGaps (deref w3 (report_inputs res)) @ found))"
proof -
  have "\<forall>res w'. run c program w = (Inr res, w') \<longrightarrow>
      (\<exists>cfg w2 w3 found annotatedRefs.
         gatherInputs c program cfg w2 = (Inr (report_inputs res), w3) \<and>
         calculateCPGaps c (to_lower_case (string_of (standard program)))
           (deref w3 (organization cfg)) (rest cfg) (resolve_paths c program) = Inr (found, annotatedRefs) \<and>
         allGaps res = calculateInputGaps (deref w3 (report_inputs res)) @ found)"
  proof (intro allI impI)
    fix res w' assume "run c program w = (Inr res, w')"
    from run_Inr [OF this] show "\<exists>cfg w2 w3 found annotatedRefs.
         gatherInputs c program cfg w2 = (Inr (report_inputs res), w3) \<and>
         calculateCPGaps c (to_lower_case (string_of (standard program)))
           (deref w3 (organization cfg)) (rest cfg) (resolve_paths c program) = Inr (found, annotatedRefs) \<and>
         allGaps res = calculateInputGaps (deref w3 (report_inputs res)) @ found"
      unfolding combine_gaps_def by blast
  qed
  then show ?thesis by (simp add: combine_gaps_def)
qed

theorem aggregation_order_witness:
  "combine_gaps [\<lparr>ref = ''Pen Test'', title = ''(see above)''\<rparr>] [\<lparr>ref = ''164.308(a)(8)'', title = ''Evaluation''\<rparr>] =
     [\<lparr>ref = ''Pen Test'', title = ''(see above)''\<rparr>, \<lparr>ref = ''164.308(a)(8)'', title = ''Evaluation''\<rparr>] \<and>
   allGaps (projr (fst (run example_collab example_program empty_world))) =
     [\<lparr>ref = ''Pen Test'', title = ''(see above)''\<rparr>]"
  using aggregation_order [of "\<lparr>ref = ''Pen Test'', title = ''(see above)''\<rparr>"
      "\<lparr>ref = ''164.308(a)(8)'', title = ''Evaluation''\<rparr>" "[]" "[]" example_collab example_program empty_world]
  by (simp add: example_run)

text \<open>
  Claim C8. When the risk list is not requested, the risk step yields the literal
  \<^verbatim>\<open>Detailed risk items omitted.\<close> without an error and without a call; every run
  that completes has rendered a report context whose \<^verbatim>\<open>riskList\<close> is that literal,
  having read the configuration, prompted, rendered the standard and generated the
  report, with no risk query; and the run does complete when the standard and the
  configuration file are given and the collaborators succeed.
\<close>

theorem risk_list_omitted:
  assumes "\<not> present (includeRisks program)"
  shows "risk_list c program w = (Inr (JStr ''Detailed risk items omitted.''), w) \<and>
         (\<forall>res w'. run c program w = (Inr res, w') \<longrightarrow>
            get_prop (deref w' (report_inputs res)) ''riskList'' = JStr ''Detailed risk items omitted.'' \<and>
            trace w' = trace w @
              [ReadConfig (string_of (config program)),
               Prompt (standard program),
               RenderStandard (to_lower_case (string_of (standard program))),
               GenerateReport (report_inputs res) (to_lower_case (string_of (standard program)))]) \<and>
         (present (standard program) \<and> present (config program) \<and>
          (\<exists>org r. read_config c (string_of (config program)) = Inr (org, r)) \<and>
          (\<forall>ob. validateOrgValues c ob) \<and>
          (\<forall>s ob r p. \<exists>found. calculateCPGaps c s ob r p = Inr found) \<and>
          (\<forall>i s p. generateReport c i s p = None)
          \<longrightarrow> (\<exists>res w'. run c program w = (Inr res, w')))"
proof (intro conjI allI impI)
  show "risk_list c program w = (Inr (JStr ''Detailed risk items omitted.''), w)"
    using assms by (rule risk_list_not_requested)
next
  fix res w'
  assume r: "run c program w = (Inr res, w')"
  from run_Inr [OF r] obtain cfg w1 riskList w2 w3 cpGaps annotatedRefs ps where
    lc: "load_config c (string_of (config program)) w = (Inr cfg, w1)"
    and rl: "risk_list c program w1 = (Inr riskList, w2)"
    and gi: "gatherInputs c program cfg w2 = (Inr (report_inputs res), w3)"
    and w': "w' = emit (GenerateReport (report_inputs res) (to_lower_case (string_of (standard program))))
                  (update_object (report_inputs res)
                     (define_props (ps @ [(''riskList'', riskList)]))
                     (emit (RenderStandard (to_lower_case (string_of (standard program)))) w3))"
    by (metis append_Cons append_Nil)
  from rl assms have rl': "riskList = JStr ''Detailed risk items omitted.''" "w2 = w1"
    by (simp_all add: risk_list_not_requested)
  from gatherInputs_Inr [OF gi] have
    i: "report_inputs res < length (heap w3)" and t3: "trace w3 = trace w2 @ [Prompt (standard program)]"
    by simp_all
  from load_config_Inr [OF lc] have t1: "trace w1 = trace w @ [ReadConfig (string_of (config program))]"
    by simp
  show "get_prop (deref w' (report_inputs res)) ''riskList'' = JStr ''Detailed risk items omitted.''"
    using i by (simp add: w' rl' deref_emit deref_update_object length_heap_emit get_prop_define_last)
  show "trace w' = trace w @
              [ReadConfig (string_of (config program)),
               Prompt (standard program),
               RenderStandard (to_lower_case (string_of (standard program))),
               GenerateReport (report_inputs res) (to_lower_case (string_of (standard program)))]"
    by (simp add: w' trace_emit trace_update_object t3 t1 rl')
next
  assume a: "present (standard program) \<and> present (config program) \<and>
          (\<exists>org r. read_config c (string_of (config program)) = Inr (org, r)) \<and>
          (\<forall>ob. validateOrgValues c ob) \<and>
          (\<forall>s ob r p. \<exists>found. calculateCPGaps c s ob r p = Inr found) \<and>
          (\<forall>i s p. generateReport c i s p = None)"
  then obtain org r where rc: "read_config c (string_of (config program)) = Inr (org, r)"
    by auto
  from load_config_total [OF rc, of w] obtain cfg w1 where
    lc: "load_config c (string_of (config program)) w = (Inr cfg, w1)" by auto
  from a have "validateOrgValues c (deref w1 (organization cfg))" by simp
  from gatherInputs_total [OF this, of program] obtain inputs w3 where
    gi: "gatherInputs c program cfg w1 = (Inr inputs, w3)" by auto
  from a have "\<exists>found. calculateCPGaps c (to_lower_case (string_of (standard program)))
             (deref w3 (organization cfg)) (rest cfg) (resolve_paths c program) = Inr found"
    by simp
  then obtain cpGaps annotatedRefs where
    cp: "calculateCPGaps c (to_lower_case (string_of (standard program)))
             (deref w3 (organization cfg)) (rest cfg) (resolve_paths c program) = Inr (cpGaps, annotatedRefs)"
    by (metis surj_pair)
  from a lc gi cp assms show "\<exists>res w'. run c program w = (Inr res, w')"
    by (simp add: run_def Let_def risk_list_not_requested)
qed

theorem risk_list_omitted_witness:
  "\<not> present (includeRisks example_program) \<and>
   fst (run example_collab example_program empty_world) =
     Inr \<lparr>report_inputs = 2, allGaps = [\<lparr>ref = ''Pen Test'', title = ''(see above)''\<rparr>]\<rparr> \<and>
   get_prop (deref (snd (run example_collab example_program empty_world)) 2) ''riskList'' =
     JStr ''Detailed risk items omitted.''"
proof -
  have h: "\<not> present (includeRisks example_program)"
    by (simp add: example_program_def present_def)
  obtain w' where r: "run example_collab example_program empty_world =
      (Inr \<lparr>report_inputs = 2, allGaps = [\<lparr>ref = ''Pen Test'', title = ''(see above)''\<rparr>]\<rparr>, w')"
    using example_run by simp
  from risk_list_omitted [OF h, of example_collab empty_world] r
  have "get_prop (deref w' 2) ''riskList'' = JStr ''Detailed risk items omitted.''"
    by fastforce
  with h r show ?thesis by simp
qed

text \<open>
  Claim C9. When the risk list is requested and the account or the API token is
  missing, \<^verbatim>\<open>getRisksFromRegistry\<close> ends with a fatal usage error of the non-zero code
  \<^verbatim>\<open>EUSAGEERROR\<close> and sends no query. The run then fails: with that error once the
  configuration is loaded, or earlier with exit code 2 or the fatal error of the
  configuration file; in each case nothing but the help output or the reading of the
  configuration file has happened, so no query was issued and no report produced.
\<close>

theorem missing_credentials_fail_fast:
  assumes "present (includeRisks program)"
    and "\<not> present (account program) \<or> \<not> present (apiToken program)"
  shows "getRisksFromRegistry c program w =
           (Inl (Fatal (if \<not> present (account program)
                        then ''Missing -a, --account <name> input!''
                        else ''Missing -k, --api-token <api_token> input!'') EUSAGEERROR), w) \<and>
         EUSAGEERROR \<noteq> 0 \<and>
         (\<exists>e w'. run c program w = (Inl e, w') \<and>
            (e = ProcessExit 2 \<and> trace w' = trace w @ [OutputHelp] \<or>
             (\<exists>m. e = Fatal m EUSAGEERROR) \<and>
               trace w' = trace w @ [ReadConfig (string_of (config program))]) \<and>
            (present (standard program) \<and> present (config program) \<and>
             (\<exists>org r. read_config c (string_of (config program)) = Inr (org, r)) \<longrightarrow>
               e = Fatal (if \<not> present (account program)
                          then ''Missing -a, --account <name> input!''
                          else ''Missing -k, --api-token <api_token> input!'') EUSAGEERROR))"
proof (intro conjI)
  show "getRisksFromRegistry c program w =
           (Inl (Fatal (if \<not> present (account program)
                        then ''Missing -a, --account <name> input!''
                        else ''Missing -k, --api-token <api_token> input!'') EUSAGEERROR), w)"
    using assms(2) by (rule getRisks_missing)
  show "EUSAGEERROR \<noteq> 0" by (simp add: EUSAGEERROR_def)
  let ?e = "Fatal (if \<not> present (account program)
                        then ''Missing -a, --account <name> input!''
                        else ''Missing -k, --api-token <api_token> input!'') EUSAGEERROR"
  show "\<exists>e w'. run c program w = (Inl e, w') \<and>
            (e = ProcessExit 2 \<and> trace w' = trace w @ [OutputHelp] \<or>
             (\<exists>m. e = Fatal m EUSAGEERROR) \<and>
               trace w' = trace w @ [ReadConfig (string_of (config program))]) \<and>
            (present (standard program) \<and> present (config program) \<and>
             (\<exists>org r. read_config c (string_of (config program)) = Inr (org, r)) \<longrightarrow> e = ?e)"
  proof (cases "present (standard program) \<and> present (config program)")
    case False
    then have "run c program w = (Inl (ProcessExit 2), emit OutputHelp w)"
      by (auto simp: run_def)
    with False show ?thesis by (auto simp: trace_emit)
  next
    case True
    obtain res w1 where lc: "load_config c (string_of (config program)) w = (res, w1)"
      by (cases "load_config c (string_of (config program)) w")
    show ?thesis
    proof (cases res)
      case (Inl e)
      with lc True have r: "run c program w = (Inl e, w1)"
        by (simp add: run_def Let_def)
      from lc Inl load_config_Inl [of c "string_of (config program)" w e w1]
      have "(\<exists>m. e = Fatal m EUSAGEERROR) \<and> trace w1 = trace w @ [ReadConfig (string_of (config program))] \<and>
            (\<exists>cause. read_config c (string_of (config program)) = Inl cause)" by simp
      with r show ?thesis by auto
    next
      case (Inr cfg)
      from lc Inr load_config_Inr [of c "string_of (config program)" w cfg w1]
      have t: "trace w1 = trace w @ [ReadConfig (string_of (config program))]" by simp
      have "risk_list c program w1 = (Inl ?e, w1)"
        using assms by (simp add: risk_list_def getRisks_missing)
      with lc Inr True have "run c program w = (Inl ?e, w1)"
        by (simp add: run_def Let_def)
      with t show ?thesis by auto
    qed
  qed
qed

theorem missing_credentials_fail_fast_witness:
  "present (includeRisks (example_program\<lparr>includeRisks := Some ''true'', apiToken := Some ''secret''\<rparr>)) \<and>
   \<not> present (account (example_program\<lparr>includeRisks := Some ''true'', apiToken := Some ''secret''\<rparr>)) \<and>
   run example_collab (example_program\<lparr>includeRisks := Some ''true'', apiToken := Some ''secret''\<rparr>) empty_world =
     (Inl (Fatal ''Missing -a, --account <name> input!'' 126),
      \<lparr>heap = [[(''isHIPAACoveredEntity'', JBool True)]], trace = [ReadConfig ''config.json'']\<rparr>)"
proof -
  let ?p = "example_program\<lparr>includeRisks := Some ''true'', apiToken := Some ''secret''\<rparr>"
  have h1: "present (includeRisks ?p)" by (simp add: present_def)
  have h2: "\<not> present (account ?p) \<or> \<not> present (apiToken ?p)"
    by (simp add: present_def example_program_def)
  have h3: "present (standard ?p) \<and> present (config ?p) \<and>
     (\<exists>org r. read_config example_collab (string_of (config ?p)) = Inr (org, r))"
    by (simp add: present_def example_defs)
  have na: "\<not> present (account ?p)" by (simp add: present_def example_program_def)
  from missing_credentials_fail_fast [OF h1 h2, of example_collab empty_world] h3 na
  obtain w' where r: "run example_collab ?p empty_world =
      (Inl (Fatal ''Missing -a, --account <name> input!'' EUSAGEERROR), w')"
    by auto
  have "snd (run example_collab ?p empty_world) =
      \<lparr>heap = [[(''isHIPAACoveredEntity'', JBool True)]], trace = [ReadConfig ''config.json'']\<rparr>"
    by (simp add: example_defs run_def present_def string_of_def load_config_def risk_list_def
        getRisksFromRegistry_def fatal_def Let_def alloc_def emit_def)
  with r h1 na show ?thesis by (simp add: EUSAGEERROR_def)
qed

text \<open>
  Claim C10, as stated: any key that contains \<^verbatim>\<open>has\<close> followed anywhere later by
  \<^verbatim>\<open>Gap\<close> is treated as a gap flag. The dot of the pattern matches no line terminator:
  the key made of \<^verbatim>\<open>has\<close>, a line feed and \<^verbatim>\<open>Gap\<close> is not recognised, by the extractor
  or by the inversion.
\<close>

theorem line_terminator_counterexample:
  "\<not> gap_regex_test (''has'' @ [CHR 0x0A] @ ''Gap'') \<and>
   calculateInputGaps [(''has'' @ [CHR 0x0A] @ ''Gap'', JBool True)] = [] \<and>
   invert_gap_flags [(''has'' @ [CHR 0x0A] @ ''Gap'', JBool True)] =
     [(''has'' @ [CHR 0x0A] @ ''Gap'', JBool True)]"
  by (simp add: calculateInputGaps_def object_keys_def gap_of_key_def invert_gap_flags_def
        is_line_terminator_def)

text \<open>
  Claim C10, amended. The recognition is not anchored: a key is a gap flag, for the
  inversion and for the extractor alike, exactly when it contains \<^verbatim>\<open>has\<close> followed
  later by \<^verbatim>\<open>Gap\<close> with no line terminator between the two. So \<^verbatim>\<open>phaseGap\<close> and
  \<^verbatim>\<open>xhasFooGapy\<close> are gap flags.
\<close>

theorem gap_flag_recognition_unanchored:
  "(gap_regex_test k \<longleftrightarrow>
      (\<exists>pre mid post. k = pre @ ''has'' @ mid @ ''Gap'' @ post \<and>
         (\<forall>c\<in>set mid. \<not> is_line_terminator c))) \<and>
   (gap_of_key k \<noteq> [] \<longleftrightarrow> gap_regex_test k) \<and>
   (invert_gap_flags [(k, v)] = [(k, if gap_regex_test k then JBool (\<not> truthy v) else v)]) \<and>
   gap_regex_test ''phaseGap'' \<and> gap_regex_test ''xhasFooGapy'' \<and>
   calculateInputGaps [(''phaseGap'', JBool True), (''xhasFooGapy'', JBool True)] =
     [\<lparr>ref = ''e'', title = ''(see above)''\<rparr>, \<lparr>ref = ''Foo'', title = ''(see above)''\<rparr>]"
proof (intro conjI)
  show "gap_regex_test k \<longleftrightarrow>
      (\<exists>pre mid post. k = pre @ ''has'' @ mid @ ''Gap'' @ post \<and>
         (\<forall>c\<in>set mid. \<not> is_line_terminator c))"
    by (rule gap_regex_test_iff)
  show "gap_of_key k \<noteq> [] \<longleftrightarrow> gap_regex_test k"
    by (cases "gap_regex_exec k") (simp_all add: gap_of_key_def gap_regex_test_exec)
  show "invert_gap_flags [(k, v)] = [(k, if gap_regex_test k then JBool (\<not> truthy v) else v)]"
    by (simp add: invert_gap_flags_def object_keys_def get_prop_def)
  show "gap_regex_test ''phaseGap''" by (simp add: is_line_terminator_def)
  show "gap_regex_test ''xhasFooGapy''" by (simp add: is_line_terminator_def)
  show "calculateInputGaps [(''phaseGap'', JBool True), (''xhasFooGapy'', JBool True)] =
     [\<lparr>ref = ''e'', title = ''(see above)''\<rparr>, \<lparr>ref = ''Foo'', title = ''(see above)''\<rparr>]"
    by (simp add: calculateInputGaps_def object_keys_def gap_of_key_def trim_def char_class_defs)
qed

theorem gap_flag_recognition_unanchored_witness:
  "gap_regex_test (''x'' @ ''has'' @ ''Foo'' @ ''Gap'' @ ''y'') \<and>
   gap_of_key (''x'' @ ''has'' @ ''Foo'' @ ''Gap'' @ ''y'') \<noteq> []"
proof -
  have h: "\<forall>c\<in>set ''Foo''. \<not> is_line_terminator c" by (simp add: is_line_terminator_def)
  then have "\<exists>pre mid post. ''x'' @ ''has'' @ ''Foo'' @ ''Gap'' @ ''y'' = pre @ ''has'' @ mid @ ''Gap'' @ post \<and>
         (\<forall>c\<in>set mid. \<not> is_line_terminator c)" by blast
  with gap_flag_recognition_unanchored [of "''x'' @ ''has'' @ ''Foo'' @ ''Gap'' @ ''y''"]
  show ?thesis by blast
qed

end
